theory Spec2Isabelle
  imports Main "HOL-Library.Sublist" "HOL-Library.Multiset" "HOL-Library.Char_ord"
    "HOL-Library.List_Lexorder"
begin

section \<open>Data model\<close>

text \<open>
  The struct \<^verbatim>\<open>Update\<close> of \<^verbatim>\<open>main.go\<close> and of package \<^verbatim>\<open>commontypes\<close>
  (the two declarations have the same fields). Go strings are byte strings, so they are
  \<^typ>\<open>string\<close> here; \<^verbatim>\<open>Priority\<close> is a Go \<^verbatim>\<open>int\<close>, whose values stay far
  from the machine bounds in every function modelled below.
\<close>

record Update =
  Text :: string
  Timestamp :: string
  Link :: string
  Channel :: string
  Category :: string
  Priority :: int

section \<open>Merging fetched and stored messages (\<^verbatim>\<open>main.go\<close>, lines 869-884)\<close>

text \<open>
  \<^verbatim>\<open>seenMessages\<close> is a Go \<^verbatim>\<open>map[string]bool\<close>: reading a key that was never
  written yields \<^verbatim>\<open>false\<close>.
\<close>

type_synonym seen_map = "string \<rightharpoonup> bool"

definition seenLookup :: "seen_map \<Rightarrow> string \<Rightarrow> bool" where
  "seenLookup m k = (case m k of None \<Rightarrow> False | Some b \<Rightarrow> b)"

text \<open>
  One \<^verbatim>\<open>for _, update := range ...\<close> loop of the merge: an update whose timestamp
  was not seen is marked and appended to \<^verbatim>\<open>updates\<close>.
\<close>

fun mergeLoop :: "Update list \<Rightarrow> seen_map \<Rightarrow> Update list \<Rightarrow> seen_map \<times> Update list" where
  "mergeLoop [] seenMessages updates = (seenMessages, updates)"
| "mergeLoop (update # rest) seenMessages updates =
     (if \<not> seenLookup seenMessages (Timestamp update)
      then mergeLoop rest (seenMessages(Timestamp update \<mapsto> True)) (updates @ [update])
      else mergeLoop rest seenMessages updates)"

text \<open>The merge: the loop over the fetched updates, then the loop over the stored ones.\<close>

definition mergeUpdates :: "Update list \<Rightarrow> Update list \<Rightarrow> Update list" where
  "mergeUpdates slackUpdates dbUpdates =
     (case mergeLoop slackUpdates Map.empty [] of
        (seenMessages, updates) \<Rightarrow> snd (mergeLoop dbUpdates seenMessages updates))"

text \<open>The loop invariant: the keys marked seen are exactly the timestamps collected so far.\<close>

definition seen_inv :: "seen_map \<Rightarrow> Update list \<Rightarrow> bool" where
  "seen_inv m us \<longleftrightarrow> (\<forall>k. seenLookup m k \<longleftrightarrow> k \<in> Timestamp ` set us)"

section \<open>The string functions of the Go library that the program calls\<close>

text \<open>
  \<^verbatim>\<open>strings.Contains\<close>: the second string occurs in the first as a contiguous run of
  bytes.
\<close>

fun Contains :: "string \<Rightarrow> string \<Rightarrow> bool" where
  "Contains [] substr = (substr = [])"
| "Contains (c # s) substr = (prefix substr (c # s) \<or> Contains s substr)"

text \<open>
  \<^verbatim>\<open>strings.Split\<close> with a separator of one byte (the program only splits at
  \<^verbatim>\<open>"."\<close>). The result is never empty: the empty string gives one empty part.
\<close>

fun Split :: "string \<Rightarrow> char \<Rightarrow> string list" where
  "Split [] sep = [[]]"
| "Split (c # s) sep =
     (if c = sep then [] # Split s sep
      else (case Split s sep of [] \<Rightarrow> [[c]] | p # ps \<Rightarrow> (c # p) # ps))"

text \<open>
  \<^verbatim>\<open>strconv.ParseInt(s, 10, 64)\<close>: an optional sign, then at least one decimal digit
  and nothing else; a value outside the signed 64-bit range is an error. \<open>None\<close> is the
  error return.
\<close>

definition digitOf :: "char \<Rightarrow> int option" where
  "digitOf c =
     (let n = (of_char c :: int) in if 48 \<le> n \<and> n \<le> 57 then Some (n - 48) else None)"

fun ParseUint :: "string \<Rightarrow> int \<Rightarrow> int option" where
  "ParseUint [] n = Some n"
| "ParseUint (c # s) n =
     (case digitOf c of None \<Rightarrow> None | Some d \<Rightarrow> ParseUint s (n * 10 + d))"

definition ParseInt :: "string \<Rightarrow> int option" where
  "ParseInt s =
     (case s of
        [] \<Rightarrow> None
      | c # rest \<Rightarrow>
          (let neg = (c = CHR ''-'');
               digits = (if c = CHR ''+'' \<or> c = CHR ''-'' then rest else s)
           in if digits = [] then None
              else (case ParseUint digits 0 of
                      None \<Rightarrow> None
                    | Some un \<Rightarrow>
                        if \<not> neg \<and> un \<ge> 2 ^ 63 then None
                        else if neg \<and> un > 2 ^ 63 then None
                        else Some (if neg then - un else un))))"

text \<open>
  \<^verbatim>\<open>unicode.IsSpace\<close> on the UTF-8 bytes of a string. The white-space runes are
  U+0009..U+000D, U+0020, U+0085, U+00A0, U+1680, U+2000..U+200A, U+2028, U+2029, U+202F,
  U+205F and U+3000. A lead byte of UTF-8 is never a continuation byte, so a white-space
  rune starts at a position exactly when its encoding starts there.
\<close>

definition asciiSpace :: "nat \<Rightarrow> bool" where
  "asciiSpace b0 \<longleftrightarrow> (9 \<le> b0 \<and> b0 \<le> 13) \<or> b0 = 32"

definition spaceRune2 :: "nat \<Rightarrow> nat \<Rightarrow> bool" where
  "spaceRune2 b0 b1 \<longleftrightarrow> b0 = 0xC2 \<and> (b1 = 0x85 \<or> b1 = 0xA0)"

definition spaceRune3 :: "nat \<Rightarrow> nat \<Rightarrow> nat \<Rightarrow> bool" where
  "spaceRune3 b0 b1 b2 \<longleftrightarrow>
     (b0 = 0xE1 \<and> b1 = 0x9A \<and> b2 = 0x80)
     \<or> (b0 = 0xE2 \<and> b1 = 0x80 \<and>
         ((0x80 \<le> b2 \<and> b2 \<le> 0x8A) \<or> b2 = 0xA8 \<or> b2 = 0xA9 \<or> b2 = 0xAF))
     \<or> (b0 = 0xE2 \<and> b1 = 0x81 \<and> b2 = 0x9F)
     \<or> (b0 = 0xE3 \<and> b1 = 0x80 \<and> b2 = 0x80)"

text \<open>The width in bytes of the white-space rune at the head of a string, 0 if there is none.\<close>

definition spaceWidth :: "string \<Rightarrow> nat" where
  "spaceWidth s =
     (case map of_char (take 3 s) of
        [] \<Rightarrow> 0
      | b0 # bs \<Rightarrow>
          if asciiSpace b0 then 1
          else (case bs of
                  [] \<Rightarrow> 0
                | b1 # bs' \<Rightarrow>
                    if spaceRune2 b0 b1 then 2
                    else (case bs' of
                            [] \<Rightarrow> 0
                          | b2 # _ \<Rightarrow> if spaceRune3 b0 b1 b2 then 3 else 0)))"

text \<open>
  The same for the rune at the end of a string, on the reversed string (last byte first).
\<close>

definition spaceWidthRev :: "string \<Rightarrow> nat" where
  "spaceWidthRev r =
     (case map of_char (take 3 r) of
        [] \<Rightarrow> 0
      | b0 # bs \<Rightarrow>
          if asciiSpace b0 then 1
          else (case bs of
                  [] \<Rightarrow> 0
                | b1 # bs' \<Rightarrow>
                    if spaceRune2 b1 b0 then 2
                    else (case bs' of
                            [] \<Rightarrow> 0
                          | b2 # _ \<Rightarrow> if spaceRune3 b2 b1 b0 then 3 else 0)))"

text \<open>
  \<^verbatim>\<open>strings.Fields\<close>: the maximal runs of bytes between white-space runes.
  \<open>cur\<close> is the field being read, \<open>skip\<close> counts the bytes still to pass of a
  white-space rune of several bytes.
\<close>

fun fieldsFrom :: "string \<Rightarrow> string \<Rightarrow> nat \<Rightarrow> string list" where
  "fieldsFrom [] cur skip = (if cur = [] then [] else [cur])"
| "fieldsFrom (c # s) cur skip =
     (if skip > 0 then fieldsFrom s cur (skip - 1)
      else (let w = spaceWidth (c # s)
            in if w > 0 then (if cur = [] then fieldsFrom s [] (w - 1)
                              else cur # fieldsFrom s [] (w - 1))
               else fieldsFrom s (cur @ [c]) 0))"

definition Fields :: "string \<Rightarrow> string list" where
  "Fields s = fieldsFrom s [] 0"

text \<open>\<^verbatim>\<open>strings.TrimSpace\<close>: the white-space runes at both ends are removed.\<close>

fun trimLeftFrom :: "string \<Rightarrow> nat \<Rightarrow> string" where
  "trimLeftFrom [] skip = []"
| "trimLeftFrom (c # s) skip =
     (if skip > 0 then trimLeftFrom s (skip - 1)
      else (let w = spaceWidth (c # s) in if w > 0 then trimLeftFrom s (w - 1) else c # s))"

fun trimRightFrom :: "string \<Rightarrow> nat \<Rightarrow> string" where
  "trimRightFrom [] skip = []"
| "trimRightFrom (c # r) skip =
     (if skip > 0 then trimRightFrom r (skip - 1)
      else (let w = spaceWidthRev (c # r) in if w > 0 then trimRightFrom r (w - 1) else c # r))"

definition TrimSpace :: "string \<Rightarrow> string" where
  "TrimSpace s = rev (trimRightFrom (rev (trimLeftFrom s 0)) 0)"

section \<open>The digest request (\<^verbatim>\<open>internal/openai/openai_client.go\<close>)\<close>

definition maxPromptLength :: nat where
  "maxPromptLength = 3800"

text \<open>
  The value of \<^verbatim>\<open>time.Unix(sec, nsec)\<close> as \<^verbatim>\<open>Before\<close> reads it: the seconds since
  year 1 in a signed 64-bit field (the sum wraps) and the nanoseconds within the second.
\<close>

datatype go_time = Time (tsec: int) (tnsec: int)

definition wrap64 :: "int \<Rightarrow> int" where
  "wrap64 x = (x + 2 ^ 63) mod 2 ^ 64 - 2 ^ 63"

text \<open>Go's integer division truncates towards zero.\<close>

definition quoT :: "int \<Rightarrow> int \<Rightarrow> int" where
  "quoT a b = (if a < 0 then - ((- a) div b) else a div b)"

definition timeUnix :: "int \<Rightarrow> int \<Rightarrow> go_time" where
  "timeUnix sec nsec =
     (if nsec < 0 \<or> nsec \<ge> 1000000000 then
        (let n = quoT nsec 1000000000;
             sec1 = wrap64 (sec + n);
             nsec1 = nsec - n * 1000000000
         in if nsec1 < 0 then Time (wrap64 (wrap64 (sec1 - 1) + 62135596800)) (nsec1 + 1000000000)
            else Time (wrap64 (sec1 + 62135596800)) nsec1)
      else Time (wrap64 (sec + 62135596800)) nsec)"

definition Before :: "go_time \<Rightarrow> go_time \<Rightarrow> bool" where
  "Before t u \<longleftrightarrow> tsec t < tsec u \<or> (tsec t = tsec u \<and> tnsec t < tnsec u)"

text \<open>
  \<^verbatim>\<open>FormatTimestamp\<close> (lines 183-208): exactly two parts around the dot, the first parsed
  as seconds, the second cut or padded with zeros to six digits and read as microseconds
  (0 when it does not parse). \<open>None\<close> is the error return.
\<close>

function padZeros :: "string \<Rightarrow> string" where
  "padZeros nsecStr = (if length nsecStr < 6 then padZeros (nsecStr @ ''0'') else nsecStr)"
  by pat_completeness auto
termination
  by (relation "measure (\<lambda>s. 6 - length s)") auto

definition FormatTimestamp :: "string \<Rightarrow> go_time option" where
  "FormatTimestamp timestamp =
     (case Split timestamp CHR ''.'' of
        [p0, p1] \<Rightarrow>
          (case ParseInt p0 of
             None \<Rightarrow> None
           | Some sec \<Rightarrow>
               if length p1 > 0 then
                 (let nsecStr = padZeros (if length p1 > 6 then take 6 p1 else p1);
                      nsec = (case ParseInt nsecStr of None \<Rightarrow> 0 | Some v \<Rightarrow> v)
                  in Some (timeUnix sec (nsec * 1000)))
               else Some (timeUnix sec 0))
      | _ \<Rightarrow> None)"

text \<open>
  The comparison given to \<^verbatim>\<open>sort.SliceStable\<close> (lines 29-39): priority first, then
  the parsed time, and the timestamp strings byte by byte when one of them does not parse.
\<close>

definition updateLess :: "Update \<Rightarrow> Update \<Rightarrow> bool" where
  "updateLess a b =
     (if Priority a \<noteq> Priority b then Priority a < Priority b
      else (case (FormatTimestamp (Timestamp a), FormatTimestamp (Timestamp b)) of
              (Some tsI, Some tsJ) \<Rightarrow> Before tsI tsJ
            | _ \<Rightarrow> Timestamp a < Timestamp b))"

text \<open>
  What \<^verbatim>\<open>GenerateSummary\<close> takes from outside the repository:
  \<^item> \<open>sliceStable\<close>: \<^verbatim>\<open>sort.SliceStable\<close> of the Go library, as a function of the
    comparison and the slice;
  \<^item> \<open>layoutJST\<close>: \<^verbatim>\<open>time.Unix(sec, 0).In(jst).Format("2006-01-02 15:04:05 JST")\<close>;
  \<^item> \<open>renderPrompt\<close>: parsing and executing the prompt template of the focus on the message
    block and the current time (lines 84-153), \<open>None\<close> when the template package fails;
  \<^item> \<open>chatCompletion\<close>: the answer of the language-model client to a prompt.
\<close>

datatype completion = CompletionError string | Choices "string list"

record summary_env =
  sliceStable :: "(Update \<Rightarrow> Update \<Rightarrow> bool) \<Rightarrow> Update list \<Rightarrow> Update list"
  layoutJST :: "int \<Rightarrow> string"
  renderPrompt :: "string \<Rightarrow> string \<Rightarrow> string option"
  chatCompletion :: "string \<Rightarrow> completion"

datatype summary_error = TemplateError | OpenAIError string | EmptySummary

text \<open>
  \<^verbatim>\<open>formatTimestamp\<close> (lines 217-231): the part before the first dot parsed as seconds and
  laid out in JST. \<open>None\<close> is the error return.
\<close>

definition formatTimestamp :: "(int \<Rightarrow> string) \<Rightarrow> string \<Rightarrow> string option" where
  "formatTimestamp layout slackTs =
     (case Split slackTs CHR ''.'' of
        [] \<Rightarrow> None
      | p0 # _ \<Rightarrow> (case ParseInt p0 of None \<Rightarrow> None | Some sec \<Rightarrow> Some (layout sec)))"

definition formatMessage :: "string \<Rightarrow> string" where
  "formatMessage text = TrimSpace text"

text \<open>The line of one update (lines 55-60) and its token estimate (line 63).\<close>

definition messageLine :: "string \<Rightarrow> Update \<Rightarrow> string" where
  "messageLine formattedTime u =
     ''['' @ formattedTime @ ''] #'' @ Channel u @ '': '' @ formatMessage (Text u)
       @ '' Link: <'' @ Link u @ ''|View Message>'' @ [CHR 0x0A]"

definition lineTokens :: "string \<Rightarrow> Update \<Rightarrow> nat" where
  "lineTokens formattedTime u = length (Fields (messageLine formattedTime u))"

record prompt_state =
  sb :: string
  currentTokenCount :: nat
  includedMessages :: nat

definition initialPrompt :: prompt_state where
  "initialPrompt = \<lparr>sb = [], currentTokenCount = 0, includedMessages = 0\<rparr>"

text \<open>
  The loop of lines 47-78, \<^verbatim>\<open>for i := len(updates) - 1; i >= 0; i--\<close>. The second
  argument is \<open>i + 1\<close>: at \<open>0\<close> the loop is over. An update whose timestamp does not
  format is passed over (\<^verbatim>\<open>continue\<close>); the first line that would take the count over
  \<open>maxPromptLength\<close> ends the loop (\<^verbatim>\<open>break\<close>).
\<close>

fun promptLoop :: "(int \<Rightarrow> string) \<Rightarrow> Update list \<Rightarrow> nat \<Rightarrow> prompt_state \<Rightarrow> prompt_state" where
  "promptLoop layout updates 0 st = st"
| "promptLoop layout updates (Suc i) st =
     (case formatTimestamp layout (Timestamp (updates ! i)) of
        None \<Rightarrow> promptLoop layout updates i st
      | Some formattedTime \<Rightarrow>
          if currentTokenCount st + lineTokens formattedTime (updates ! i) > maxPromptLength
          then st
          else promptLoop layout updates i
                 \<lparr>sb = sb st @ messageLine formattedTime (updates ! i),
                  currentTokenCount = currentTokenCount st + lineTokens formattedTime (updates ! i),
                  includedMessages = includedMessages st + 1\<rparr>)"

text \<open>
  \<^verbatim>\<open>GenerateSummary\<close> (lines 23-180). The second component of the result lists the
  prompts handed to the language-model client, in order.
\<close>

definition GenerateSummary ::
  "summary_env \<Rightarrow> Update list \<Rightarrow> string \<Rightarrow> (summary_error + string) \<times> string list" where
  "GenerateSummary env updates focus =
     (if length updates = 0 then (Inr ''No new updates found.'', [])
      else
        (let sorted = sliceStable env updateLess updates;
             st = promptLoop (layoutJST env) sorted (length sorted) initialPrompt
         in if length (sb st) = 0
            then (Inr ''No processable messages found within token limits.'', [])
            else (case renderPrompt env focus (sb st) of
                    None \<Rightarrow> (Inl TemplateError, [])
                  | Some prompt \<Rightarrow>
                      (case chatCompletion env prompt of
                         CompletionError e \<Rightarrow> (Inl (OpenAIError e), [prompt])
                       | Choices cs \<Rightarrow>
                           (case cs of
                              [] \<Rightarrow> (Inl EmptySummary, [prompt])
                            | c # _ \<Rightarrow>
                                if c = [] then (Inl EmptySummary, [prompt])
                                else (Inr c, [prompt]))))))"

text \<open>
  For the statements about the loop: an update is renderable when its timestamp formats,
  and \<open>tokensOf\<close> is the token estimate of its line.
\<close>

definition renderable :: "(int \<Rightarrow> string) \<Rightarrow> Update \<Rightarrow> bool" where
  "renderable layout u \<longleftrightarrow> formatTimestamp layout (Timestamp u) \<noteq> None"

definition lineOf :: "(int \<Rightarrow> string) \<Rightarrow> Update \<Rightarrow> string" where
  "lineOf layout u =
     (case formatTimestamp layout (Timestamp u) of
        None \<Rightarrow> []
      | Some formattedTime \<Rightarrow> messageLine formattedTime u)"

definition tokensOf :: "(int \<Rightarrow> string) \<Rightarrow> Update \<Rightarrow> nat" where
  "tokensOf layout u = length (Fields (lineOf layout u))"

text \<open>
  The order that the statements about the cut compare with, read off the fields of two
  updates: \<open>a\<close> stands not after \<open>b\<close> when its priority is lower, or the priorities
  are equal and its timestamp is not the later one, by the parsed times when both
  timestamps parse in \<^verbatim>\<open>FormatTimestamp\<close> and by the strings byte by byte otherwise.
\<close>

definition orderedBefore :: "Update \<Rightarrow> Update \<Rightarrow> bool" where
  "orderedBefore a b \<longleftrightarrow>
     Priority a < Priority b \<or>
     (Priority a = Priority b \<and>
      (case (FormatTimestamp (Timestamp a), FormatTimestamp (Timestamp b)) of
         (Some ta, Some tb) \<Rightarrow> \<not> Before tb ta
       | _ \<Rightarrow> Timestamp a \<le> Timestamp b))"

section \<open>What the program exchanges with Slack and with the database\<close>

text \<open>
  The fields of \<^verbatim>\<open>slack.Message\<close> and of \<^verbatim>\<open>slack.Channel\<close> that the program reads
  (\<^verbatim>\<open>Type\<close>, \<^verbatim>\<open>Timestamp\<close> and \<^verbatim>\<open>Text\<close> of a message carry the prefix
  \<open>Msg\<close> here, \<^verbatim>\<open>ID\<close> and \<^verbatim>\<open>Name\<close> of a channel the prefix \<open>Chan\<close>).
\<close>

record Message =
  BotID :: string
  SubType :: string
  MsgType :: string
  ThreadTimestamp :: string
  MsgTimestamp :: string
  MsgText :: string

record Chan =
  ChanID :: string
  ChanName :: string

text \<open>
  The answers of the remote calls: an error with its text, or a page.
  A history page carries \<^verbatim>\<open>Messages\<close>, \<^verbatim>\<open>HasMore\<close> and
  \<^verbatim>\<open>ResponseMetaData.NextCursor\<close>.
\<close>

datatype conversations_response = ConversationsError string | ConversationsPage "Chan list" string

datatype history_response = HistoryError string | HistoryPage "Message list" bool string

text \<open>The answer of a \<^verbatim>\<open>QueryRow(...).Scan\<close>: an error, \<^verbatim>\<open>sql.ErrNoRows\<close>, or the row.\<close>

datatype 'a query = QueryError | NoRows | Row 'a

text \<open>
  A \<^verbatim>\<open>time.Time\<close> as the nanoseconds since the zero time, so that \<^verbatim>\<open>IsZero\<close> is
  equality with 0.
\<close>

type_synonym time = int

definition IsZero :: "time \<Rightarrow> bool" where
  "IsZero t \<longleftrightarrow> t = 0"

text \<open>
  The calls that the statements below speak about, in the order the program makes them:
  the upsert of a channel row (Slack id, name), a history request (oldest time, cursor),
  the insert of a message (channel row id, message timestamp) and the statement
  \<^verbatim>\<open>UPDATE channels SET last_fetched = CURRENT_TIMESTAMP WHERE id = $1\<close>, the only one
  in the program that writes \<^verbatim>\<open>last_fetched\<close>.
\<close>

datatype event =
  UpsertChannel string string
  | HistoryCall time string
  | SaveMessage int string
  | UpdateLastFetch int

text \<open>
  The collaborators of one run over one channel. Remote calls that sit in a loop answer by
  the number of the call (\<open>GetConversations\<close>, \<open>GetConversationHistory\<close>), so that the
  same request can be answered differently when it is repeated.
  \<^item> \<open>dbPresent\<close>: \<^verbatim>\<open>db != nil\<close>;
  \<^item> \<open>ToLower\<close>: \<^verbatim>\<open>strings.ToLower\<close> of the Go library;
  \<^item> \<open>selectChannel\<close>: \<^verbatim>\<open>SELECT id, slack_id FROM channels WHERE name = $1\<close>;
  \<^item> \<open>upsertReturning\<close>: the upsert of a channel, \<open>None\<close> when it fails, else the row id;
  \<^item> \<open>selectLastFetched\<close>: \<^verbatim>\<open>SELECT last_fetched FROM channels WHERE id = $1\<close>, the row
    holding \<open>None\<close> for SQL NULL;
  \<^item> \<open>GetPermalink\<close>: by channel id and message timestamp, \<open>None\<close> when it fails;
  \<^item> \<open>execUpdateLastFetched\<close>: whether the update of \<^verbatim>\<open>last_fetched\<close> succeeds;
  \<^item> \<open>weekAgo\<close>, \<open>dayAgo\<close>: \<^verbatim>\<open>time.Now().AddDate(0, 0, -7)\<close> and
    \<^verbatim>\<open>time.Now().Add(-24 * time.Hour)\<close>;
  \<^item> \<open>selectMessages\<close>: the query of \<^verbatim>\<open>getMessagesFromDB\<close>, \<open>None\<close> when it fails;
  \<^item> \<open>scanTimestamp\<close>: whether \<^verbatim>\<open>formatTimestamp\<close> of \<^verbatim>\<open>main.go\<close>
    (\<^verbatim>\<open>fmt.Sscanf\<close> with \<^verbatim>\<open>%f\<close>, \<^verbatim>\<open>time.LoadLocation\<close>) succeeds on a timestamp;
  \<^item> \<open>execSaveMessage\<close>: whether the insert of a message succeeds.
\<close>

record world =
  dbPresent :: bool
  ToLower :: "string \<Rightarrow> string"
  selectChannel :: "string \<Rightarrow> (int \<times> string) query"
  GetConversations :: "nat \<Rightarrow> conversations_response"
  upsertReturning :: "string \<Rightarrow> string \<Rightarrow> int option"
  selectLastFetched :: "int \<Rightarrow> time option query"
  GetConversationHistory :: "nat \<Rightarrow> history_response"
  GetPermalink :: "string \<Rightarrow> string \<Rightarrow> string option"
  execUpdateLastFetched :: "int \<Rightarrow> bool"
  weekAgo :: time
  dayAgo :: time
  selectMessages :: "int \<Rightarrow> Update list option"
  scanTimestamp :: "string \<Rightarrow> bool"
  execSaveMessage :: "int \<Rightarrow> Update \<Rightarrow> bool"

section \<open>The Slack client (\<^verbatim>\<open>internal/slack/slack_client.go\<close>)\<close>

subsection \<open>\<^verbatim>\<open>categorizeMessage\<close> (lines 395-448)\<close>

definition alertKeywords :: "string list" where
  "alertKeywords =
     [''alert'', ''incident'', ''down'', '' outage'', ''critical'', ''p0'', ''sev0'', ''sev1'']"

definition supportKeywords :: "string list" where
  "supportKeywords =
     [''support request'', ''customer issue'', ''ticket'', ''bug report'', ''need help'',
      ''assistance'']"

definition highPriorityKeywords :: "string list" where
  "highPriorityKeywords = [''urgent'', ''asap'', ''blocker'', ''immediately'']"

text \<open>
  Each \<^verbatim>\<open>for _, keyword := range ...\<close> loop leaves at the first keyword contained in
  the text, so it is a test whether some keyword of the list is contained.
\<close>

definition categorizeMessage :: "(string \<Rightarrow> string) \<Rightarrow> string \<Rightarrow> string \<Rightarrow> string \<times> int" where
  "categorizeMessage toLower channelName text =
     (let lowerText = toLower text;
          lowerChannelName = toLower channelName;
          priority = (if list_ex (Contains lowerText) highPriorityKeywords then 3 else 1)
      in if list_ex (Contains lowerText) alertKeywords
         then (''alert'', if priority < 3 then 3 else priority)
         else if Contains lowerChannelName ''support'' \<or> Contains lowerChannelName ''customer''
                 \<or> Contains lowerChannelName ''help''
         then (if list_ex (Contains lowerText) supportKeywords
               then (''support'', if priority < 2 then 2 else priority)
               else (''support'', if priority < 2 then 2 else priority))
         else if list_ex (Contains lowerText) supportKeywords
         then (''support'', if priority < 2 then 2 else priority)
         else (''general'', priority))"

subsection \<open>\<^verbatim>\<open>getChannelID\<close> and \<^verbatim>\<open>upsertChannel\<close> (lines 233-335)\<close>

datatype resolve_error = ChannelQueryFailed | ConversationsFailed string | ChannelNotListed

text \<open>
  The loop of lines 262-285 over the pages of the channel directory, from the \<open>n\<close>-th
  call on: \<open>Inr (Some id)\<close> when a channel of that name is found, \<open>Inr None\<close> when the
  pages end without one, \<open>None\<close> when the loop never ends.
\<close>

partial_function (option) findChannel ::
  "world \<Rightarrow> string \<Rightarrow> nat \<Rightarrow> (resolve_error + string option) option" where
  "findChannel w channelName n =
     (case GetConversations w n of
        ConversationsError e \<Rightarrow> Some (Inl (ConversationsFailed e))
      | ConversationsPage channels nextCursor \<Rightarrow>
          (case find (\<lambda>channel. ChanName channel = channelName) channels of
             Some channel \<Rightarrow> Some (Inr (Some (ChanID channel)))
           | None \<Rightarrow>
               if nextCursor = [] then Some (Inr None)
               else findChannel w channelName (Suc n)))"

text \<open>\<^verbatim>\<open>upsertChannel\<close> returns the row id, or 0 and an error (\<open>True\<close>).\<close>

definition upsertChannel :: "world \<Rightarrow> string \<Rightarrow> string \<Rightarrow> int \<times> bool" where
  "upsertChannel w slackID name =
     (if \<not> dbPresent w then (0, True)
      else (case upsertReturning w slackID name of None \<Rightarrow> (0, True) | Some rowID \<Rightarrow> (rowID, False)))"

text \<open>
  \<^verbatim>\<open>getChannelID\<close>: the Slack id and the row id, or an error, with the upsert it made.
\<close>

definition getChannelID ::
  "world \<Rightarrow> string \<Rightarrow> ((resolve_error + string \<times> int) \<times> event list) option" where
  "getChannelID w channelName =
     (case (if dbPresent w then selectChannel w channelName else NoRows) of
        Row (dbID, slackID) \<Rightarrow> Some (Inr (slackID, dbID), [])
      | QueryError \<Rightarrow> Some (Inl ChannelQueryFailed, [])
      | NoRows \<Rightarrow>
          (case findChannel w channelName 0 of
             None \<Rightarrow> None
           | Some (Inl e) \<Rightarrow> Some (Inl e, [])
           | Some (Inr None) \<Rightarrow> Some (Inl ChannelNotListed, [])
           | Some (Inr (Some slackID)) \<Rightarrow>
               if dbPresent w then
                 (case upsertChannel w slackID channelName of
                    (dbID, upsertErr) \<Rightarrow>
                      if upsertErr then Some (Inr (slackID, 0), [UpsertChannel slackID channelName])
                      else Some (Inr (slackID, dbID), [UpsertChannel slackID channelName]))
               else Some (Inr (slackID, 0), [])))"

subsection \<open>\<^verbatim>\<open>getLastFetchTime\<close> and \<^verbatim>\<open>updateLastFetchTime\<close> (lines 338-392)\<close>

definition getLastFetchTime :: "world \<Rightarrow> int \<Rightarrow> time option" where
  "getLastFetchTime w channelDBID =
     (if \<not> dbPresent w then None
      else if channelDBID = 0 then None
      else (case selectLastFetched w channelDBID of
              QueryError \<Rightarrow> None
            | NoRows \<Rightarrow> None
            | Row None \<Rightarrow> Some (weekAgo w)
            | Row (Some t) \<Rightarrow> if IsZero t then Some (weekAgo w) else Some t))"

text \<open>The result is whether an error is returned, with the statement executed, if any.\<close>

definition updateLastFetchTime :: "world \<Rightarrow> int \<Rightarrow> bool \<times> event list" where
  "updateLastFetchTime w channelDBID =
     (if \<not> dbPresent w then (True, [])
      else if channelDBID = 0 then (True, [])
      else (\<not> execUpdateLastFetched w channelDBID, [UpdateLastFetch channelDBID]))"

subsection \<open>\<^verbatim>\<open>SummarizeChannel\<close> (lines 70-226)\<close>

datatype summarize_error =
  NoDatabaseNoDate
  | ChannelInfoFailed resolve_error
  | InternalNoDatabase
  | ChannelNotFound
  | HistoryFailed string

text \<open>\<^verbatim>\<open>strings.Replace(s, ".", "", 1)\<close>: the first dot is removed.\<close>

fun removeFirstDot :: "string \<Rightarrow> string" where
  "removeFirstDot [] = []"
| "removeFirstDot (c # s) = (if c = CHR ''.'' then s else c # removeFirstDot s)"

text \<open>The loop over the messages of one page (lines 151-193).\<close>

fun processPage :: "world \<Rightarrow> string \<Rightarrow> string \<Rightarrow> Message list \<Rightarrow> Update list \<Rightarrow> Update list" where
  "processPage w channelName channelSlackID [] updates = updates"
| "processPage w channelName channelSlackID (msg # rest) updates =
     (if BotID msg \<noteq> [] \<or> SubType msg \<noteq> [] then
        processPage w channelName channelSlackID rest updates
      else if ThreadTimestamp msg \<noteq> [] \<and> SubType msg \<noteq> ''thread_broadcast'' then
        processPage w channelName channelSlackID rest updates
      else
        (let permalink =
               (case GetPermalink w channelSlackID (MsgTimestamp msg) of
                  Some link \<Rightarrow> link
                | None \<Rightarrow> ''https://slack.com/archives/'' @ channelSlackID @ ''/p''
                            @ removeFirstDot (MsgTimestamp msg));
             (category, priority) = categorizeMessage (ToLower w) channelName (MsgText msg);
             update = \<lparr>Text = MsgText msg, Timestamp = MsgTimestamp msg, Link = permalink,
                        Channel = channelName, Category = category, Priority = priority\<rparr>
         in processPage w channelName channelSlackID rest (updates @ [update])))"

text \<open>
  The loop over the history pages (lines 121-206), from the \<open>n\<close>-th call on, with the
  calls made so far. \<open>None\<close>: the loop never ends.
\<close>

partial_function (option) historyLoop ::
  "world \<Rightarrow> string \<Rightarrow> string \<Rightarrow> time \<Rightarrow> nat \<Rightarrow> string \<Rightarrow> Update list \<Rightarrow> event list
     \<Rightarrow> ((summarize_error + Update list) \<times> event list) option" where
  "historyLoop w channelName channelSlackID since n cursor updates calls =
     (case GetConversationHistory w n of
        HistoryError e \<Rightarrow>
          if Contains e ''channel_not_found'' then
            Some (Inl ChannelNotFound, calls @ [HistoryCall since cursor])
          else if Contains e ''ratelimited'' then
            historyLoop w channelName channelSlackID since (Suc n) cursor updates
              (calls @ [HistoryCall since cursor])
          else Some (Inl (HistoryFailed e), calls @ [HistoryCall since cursor])
      | HistoryPage messages hasMore nextCursor \<Rightarrow>
          if \<not> hasMore \<or> nextCursor = [] then
            Some (Inr (processPage w channelName channelSlackID messages updates),
                  calls @ [HistoryCall since cursor])
          else
            historyLoop w channelName channelSlackID since (Suc n) nextCursor
              (processPage w channelName channelSlackID messages updates)
              (calls @ [HistoryCall since cursor]))"

text \<open>
  The start time of the fetch (lines 88-111): the override when it is given, else the
  stored time of the last fetch, a week ago when that cannot be read. \<open>None\<close> is the error
  return of line 110.
\<close>

definition fetchSince :: "world \<Rightarrow> time \<Rightarrow> int \<Rightarrow> time option" where
  "fetchSince w fromDateOverride channelDBID =
     (if \<not> IsZero fromDateOverride then Some fromDateOverride
      else if dbPresent w then
        (case getLastFetchTime w channelDBID of
           None \<Rightarrow> Some (weekAgo w)
         | Some lastFetch \<Rightarrow> Some lastFetch)
      else None)"

definition SummarizeChannel ::
  "world \<Rightarrow> string \<Rightarrow> time \<Rightarrow> ((summarize_error + Update list) \<times> event list) option" where
  "SummarizeChannel w channelName fromDateOverride =
     (if \<not> dbPresent w \<and> IsZero fromDateOverride then Some (Inl NoDatabaseNoDate, [])
      else
        (case getChannelID w channelName of
           None \<Rightarrow> None
         | Some (Inl e, ev) \<Rightarrow> Some (Inl (ChannelInfoFailed e), ev)
         | Some (Inr (channelSlackID, channelDBID), ev) \<Rightarrow>
             (case fetchSince w fromDateOverride channelDBID of
                None \<Rightarrow> Some (Inl InternalNoDatabase, ev)
              | Some since \<Rightarrow>
                  (case historyLoop w channelName channelSlackID since 0 [] [] [] of
                     None \<Rightarrow> None
                   | Some (Inl e, calls) \<Rightarrow> Some (Inl e, ev @ calls)
                   | Some (Inr updates, calls) \<Rightarrow>
                       Some (Inr updates,
                             ev @ calls @
                             (if dbPresent w then snd (updateLastFetchTime w channelDBID)
                              else []))))))"

text \<open>
  For the statements about the retry: an answer is retried when the loop takes the branch
  of line 136 with it (an error whose text contains "ratelimited" and not
  "channel_not_found"), and it ends the loop when it is another error or a page after
  which the loop does not go on.
\<close>

definition retriedAnswer :: "history_response \<Rightarrow> bool" where
  "retriedAnswer r =
     (case r of
        HistoryError e \<Rightarrow> \<not> Contains e ''channel_not_found'' \<and> Contains e ''ratelimited''
      | HistoryPage messages hasMore nextCursor \<Rightarrow> False)"

definition finalAnswer :: "history_response \<Rightarrow> bool" where
  "finalAnswer r =
     (case r of
        HistoryError e \<Rightarrow> Contains e ''channel_not_found'' \<or> \<not> Contains e ''ratelimited''
      | HistoryPage messages hasMore nextCursor \<Rightarrow> \<not> hasMore \<or> nextCursor = [])"

section \<open>The program (\<^verbatim>\<open>main.go\<close>)\<close>

subsection \<open>\<^verbatim>\<open>categorizeMessage\<close> (lines 419-441)\<close>

definition urgentTerms :: "string list" where
  "urgentTerms =
     [''urgent'', ''emergency'', ''critical'', ''outage'', ''down'', ''broken'', ''failed'',
      ''error'']"

text \<open>
  The category comes from the channel name as it is written; the priority is raised by
  one for every urgent term that the lower-case text contains.
\<close>

definition categorizeMessageMain :: "(string \<Rightarrow> string) \<Rightarrow> string \<Rightarrow> string \<Rightarrow> string \<times> int" where
  "categorizeMessageMain toLower channelName text =
     (let (category, priority) =
            (if Contains channelName ''alert'' \<or> Contains channelName ''incident''
             then (''alert'', 3)
             else if Contains channelName ''support'' then (''support'', 2)
             else (''general'', 1));
          lowercaseText = toLower text
      in (category, priority + int (length (filter (Contains lowercaseText) urgentTerms))))"

subsection \<open>\<^verbatim>\<open>getChannelID\<close> and the database helpers (lines 177-302)\<close>

definition upsertChannelMain :: "world \<Rightarrow> string \<Rightarrow> string \<Rightarrow> int \<times> bool" where
  "upsertChannelMain w slackID name =
     (case upsertReturning w slackID name of None \<Rightarrow> (0, True) | Some rowID \<Rightarrow> (rowID, False))"

text \<open>
  The loop of lines 197-223, from the \<open>n\<close>-th call on. The error of the upsert is logged
  and the row id that \<^verbatim>\<open>upsertChannel\<close> returned is passed on.
\<close>

partial_function (option) getChannelIDLoop ::
  "world \<Rightarrow> string \<Rightarrow> nat \<Rightarrow> ((resolve_error + string \<times> int) \<times> event list) option" where
  "getChannelIDLoop w channelName n =
     (case GetConversations w n of
        ConversationsError e \<Rightarrow> Some (Inl (ConversationsFailed e), [])
      | ConversationsPage channels nextCursor \<Rightarrow>
          (case find (\<lambda>channel. ChanName channel = channelName) channels of
             Some channel \<Rightarrow>
               (case upsertChannelMain w (ChanID channel) channelName of
                  (dbID, err) \<Rightarrow>
                    Some (Inr (ChanID channel, dbID), [UpsertChannel (ChanID channel) channelName]))
           | None \<Rightarrow>
               if nextCursor = [] then Some (Inl ChannelNotListed, [])
               else getChannelIDLoop w channelName (Suc n)))"

definition getChannelIDMain ::
  "world \<Rightarrow> string \<Rightarrow> ((resolve_error + string \<times> int) \<times> event list) option" where
  "getChannelIDMain w channelName =
     (case selectChannel w channelName of
        Row (dbID, slackID) \<Rightarrow> Some (Inr (slackID, dbID), [])
      | QueryError \<Rightarrow> Some (Inl ChannelQueryFailed, [])
      | NoRows \<Rightarrow> getChannelIDLoop w channelName 0)"

definition getLastFetchTimeMain :: "world \<Rightarrow> int \<Rightarrow> time option" where
  "getLastFetchTimeMain w channelID =
     (case selectLastFetched w channelID of
        QueryError \<Rightarrow> None
      | NoRows \<Rightarrow> None
      | Row None \<Rightarrow> Some (weekAgo w)
      | Row (Some t) \<Rightarrow> Some t)"

definition updateLastFetchTimeMain :: "world \<Rightarrow> int \<Rightarrow> bool \<times> event list" where
  "updateLastFetchTimeMain w channelID =
     (\<not> execUpdateLastFetched w channelID, [UpdateLastFetch channelID])"

text \<open>
  \<^verbatim>\<open>saveMessage\<close>: an error (\<open>True\<close>) when the timestamp does not parse, before any
  statement is executed, or when the insert fails.
\<close>

definition saveMessage :: "world \<Rightarrow> int \<Rightarrow> Update \<Rightarrow> bool \<times> event list" where
  "saveMessage w channelID msg =
     (if \<not> scanTimestamp w (Timestamp msg) then (True, [])
      else (\<not> execSaveMessage w channelID msg, [SaveMessage channelID (Timestamp msg)]))"

subsection \<open>\<^verbatim>\<open>summarizeChannel\<close> (lines 334-417)\<close>

text \<open>The loop over the messages of one page (lines 361-395).\<close>

fun processPageMain :: "world \<Rightarrow> string \<Rightarrow> string \<Rightarrow> Message list \<Rightarrow> Update list \<Rightarrow> Update list" where
  "processPageMain w channelID channelName [] updates = updates"
| "processPageMain w channelID channelName (msg # rest) updates =
     (if BotID msg \<noteq> [] \<or> MsgType msg \<noteq> ''message''
         \<or> (ThreadTimestamp msg \<noteq> [] \<and> ThreadTimestamp msg \<noteq> MsgTimestamp msg) then
        processPageMain w channelID channelName rest updates
      else
        (let permalink =
               (case GetPermalink w channelID (MsgTimestamp msg) of
                  Some link \<Rightarrow> link
                | None \<Rightarrow> ''N/A'');
             (category, priority) = categorizeMessageMain (ToLower w) channelName (MsgText msg);
             update = \<lparr>Text = MsgText msg, Timestamp = MsgTimestamp msg, Link = permalink,
                        Channel = channelName, Category = category, Priority = priority\<rparr>
         in processPageMain w channelID channelName rest (updates @ [update])))"

text \<open>
  The loop over the history pages (lines 343-407), from the \<open>n\<close>-th call on. Every error
  of the remote call ends it with an error that carries the cursor and the error text.
\<close>

partial_function (option) summarizeChannel ::
  "world \<Rightarrow> string \<Rightarrow> string \<Rightarrow> time \<Rightarrow> nat \<Rightarrow> string \<Rightarrow> Update list \<Rightarrow> event list
     \<Rightarrow> ((string \<times> string + Update list) \<times> event list) option" where
  "summarizeChannel w channelID channelName since n cursor updates calls =
     (case GetConversationHistory w n of
        HistoryError e \<Rightarrow> Some (Inl (cursor, e), calls @ [HistoryCall since cursor])
      | HistoryPage messages hasMore nextCursor \<Rightarrow>
          if \<not> hasMore \<or> nextCursor = [] then
            Some (Inr (processPageMain w channelID channelName messages updates),
                  calls @ [HistoryCall since cursor])
          else
            summarizeChannel w channelID channelName since (Suc n) nextCursor
              (processPageMain w channelID channelName messages updates)
              (calls @ [HistoryCall since cursor]))"

subsection \<open>One turn of the loop over the channels in \<^verbatim>\<open>main\<close> (lines 821-918)\<close>

text \<open>The loop that saves the fetched messages (lines 893-900).\<close>

fun saveAll :: "world \<Rightarrow> int \<Rightarrow> Update list \<Rightarrow> nat \<Rightarrow> event list \<Rightarrow> nat \<times> event list" where
  "saveAll w channelDbID [] messagesSaved ev = (messagesSaved, ev)"
| "saveAll w channelDbID (update # rest) messagesSaved ev =
     (case saveMessage w channelDbID update of
        (err, e) \<Rightarrow>
          if err then saveAll w channelDbID rest messagesSaved (ev @ e)
          else saveAll w channelDbID rest (messagesSaved + 1) (ev @ e))"

text \<open>
  How the turn ended: the four \<^verbatim>\<open>continue\<close> statements, or the end of the loop body.
\<close>

datatype channel_status =
  EmptyName
  | ResolveFailed resolve_error
  | FetchFailed string string
  | StoredQueryFailed
  | Processed

record channel_outcome =
  status :: channel_status
  events :: "event list"
  collected :: "Update list"
  saved :: nat

text \<open>
  The start time of the fetch (lines 834-851): the flag when it is given, else the stored
  time of the last fetch, a day ago when that cannot be read.
\<close>

definition fetchStart :: "world \<Rightarrow> time \<Rightarrow> int \<Rightarrow> time" where
  "fetchStart w fromDate channelDbID =
     (if \<not> IsZero fromDate then fromDate
      else (case getLastFetchTimeMain w channelDbID of
              None \<Rightarrow> dayAgo w
            | Some lastFetch \<Rightarrow> lastFetch))"

text \<open>
  \<open>fromDate\<close> is the parsed \<^verbatim>\<open>--from-date\<close> flag, the zero time when the flag is absent.
  \<open>collected\<close> is what the turn appends to \<^verbatim>\<open>allUpdates\<close>, \<open>saved\<close> is
  \<^verbatim>\<open>messagesSaved\<close>. \<open>None\<close>: a loop over remote pages never ends.
\<close>

definition processChannel :: "world \<Rightarrow> time \<Rightarrow> string \<Rightarrow> channel_outcome option" where
  "processChannel w fromDate rawName =
     (let channelName = TrimSpace rawName
      in if channelName = [] then
           Some \<lparr>status = EmptyName, events = [], collected = [], saved = 0\<rparr>
         else
           (case getChannelIDMain w channelName of
              None \<Rightarrow> None
            | Some (Inl e, ev) \<Rightarrow>
                Some \<lparr>status = ResolveFailed e, events = ev, collected = [], saved = 0\<rparr>
            | Some (Inr (channelSlackID, channelDbID), ev) \<Rightarrow>
                (case summarizeChannel w channelSlackID channelName
                        (fetchStart w fromDate channelDbID) 0 [] [] [] of
                   None \<Rightarrow> None
                 | Some (Inl (cursor, e), calls) \<Rightarrow>
                     Some \<lparr>status = FetchFailed cursor e, events = ev @ calls,
                           collected = [], saved = 0\<rparr>
                 | Some (Inr slackUpdates, calls) \<Rightarrow>
                     (case selectMessages w channelDbID of
                        None \<Rightarrow>
                          Some \<lparr>status = StoredQueryFailed, events = ev @ calls,
                                collected = [], saved = 0\<rparr>
                      | Some dbUpdates \<Rightarrow>
                          (case saveAll w channelDbID slackUpdates 0 [] of
                             (messagesSaved, saveEvents) \<Rightarrow>
                               Some \<lparr>status = Processed,
                                     events = ev @ calls @ saveEvents @
                                       (if messagesSaved > 0
                                        then snd (updateLastFetchTimeMain w channelDbID)
                                        else []),
                                     collected = mergeUpdates slackUpdates dbUpdates,
                                     saved = messagesSaved\<rparr>)))))"

section \<open>Example inputs\<close>

text \<open>
  An insertion sort that keeps equal elements in their order, for \<open>sliceStable\<close> in the
  examples: it is what \<^verbatim>\<open>sort.SliceStable\<close> returns on the slices of the examples.
\<close>

fun insertStable :: "('a \<Rightarrow> 'a \<Rightarrow> bool) \<Rightarrow> 'a \<Rightarrow> 'a list \<Rightarrow> 'a list" where
  "insertStable lt x [] = [x]"
| "insertStable lt x (y # ys) = (if lt y x then y # insertStable lt x ys else x # y # ys)"

definition insertionSortStable :: "('a \<Rightarrow> 'a \<Rightarrow> bool) \<Rightarrow> 'a list \<Rightarrow> 'a list" where
  "insertionSortStable lt xs = foldr (insertStable lt) xs []"

text \<open>
  The updates of the examples all carry timestamps of the second 1738387800, which is
  2025-02-01 14:30:00 in JST; the layout of the example environment is the layout of that
  instant. The model answers every prompt with the same digest.
\<close>

definition exampleEnv :: summary_env where
  "exampleEnv = \<lparr>sliceStable = insertionSortStable,
     layoutJST = (\<lambda>sec. ''2025-02-01 14:30:00 JST''),
     renderPrompt = (\<lambda>focus messages. Some (''Messages: '' @ messages)),
     chatCompletion = (\<lambda>prompt. Choices [''digest''])\<rparr>"

text \<open>A text of 3801 words, and three updates of different priorities.\<close>

definition longText :: string where
  "longText = concat (replicate 3800 ''a '') @ ''a''"

definition longUpdate :: Update where
  "longUpdate = \<lparr>Text = longText, Timestamp = ''1738387800.000100'', Link = ''https://x/p1'',
      Channel = ''general'', Category = ''general'', Priority = 2\<rparr>"

definition highUpdate :: Update where
  "highUpdate = \<lparr>Text = ''db is down'', Timestamp = ''1738387800.000300'', Link = ''https://x/p3'',
      Channel = ''general'', Category = ''alert'', Priority = 3\<rparr>"

definition lowUpdate :: Update where
  "lowUpdate = \<lparr>Text = ''lunch at noon'', Timestamp = ''1738387800.000200'', Link = ''https://x/p2'',
      Channel = ''general'', Category = ''general'', Priority = 1\<rparr>"

definition exampleUpdates :: "Update list" where
  "exampleUpdates = [highUpdate, lowUpdate, longUpdate]"

text \<open>
  Two updates of equal priority with a text of 2000 words each. The timestamp of the
  later one, second 10, has no fraction; the timestamp of the earlier one is second 9
  and a half. The layout of their environment is the layout of the instants of the first
  fifteen hours of 1970, which fall on 1970-01-01 in JST.
\<close>

definition digit2 :: "int \<Rightarrow> string" where
  "digit2 n = [''0123456789'' ! nat (n div 10), ''0123456789'' ! nat (n mod 10)]"

definition epochDayLayout :: "int \<Rightarrow> string" where
  "epochDayLayout sec =
     ''1970-01-01 '' @ digit2 (9 + sec div 3600) @ '':'' @ digit2 (sec mod 3600 div 60) @ '':''
       @ digit2 (sec mod 60) @ '' JST''"

definition epochEnv :: summary_env where
  "epochEnv = exampleEnv\<lparr>layoutJST := epochDayLayout\<rparr>"

definition halfText :: string where
  "halfText = concat (replicate 1999 ''a '') @ ''a''"

definition newerUpdate :: Update where
  "newerUpdate = \<lparr>Text = halfText, Timestamp = ''10'', Link = ''https://x/p5'',
      Channel = ''general'', Category = ''general'', Priority = 1\<rparr>"

definition olderUpdate :: Update where
  "olderUpdate = \<lparr>Text = halfText, Timestamp = ''9.5'', Link = ''https://x/p4'',
      Channel = ''general'', Category = ''general'', Priority = 1\<rparr>"

text \<open>
  The scenario of the specification for the merge: fetched timestamps 100.001, 100.001,
  200.000 and stored timestamps 200.000, 50.000. The texts tell the copies apart.
\<close>

definition mkUpdate :: "string \<Rightarrow> string \<Rightarrow> Update" where
  "mkUpdate ts txt = \<lparr>Text = txt, Timestamp = ts, Link = ''https://x/p'', Channel = ''general'',
      Category = ''general'', Priority = 1\<rparr>"

definition freshExample :: "Update list" where
  "freshExample = [mkUpdate ''100.001'' ''fresh a'', mkUpdate ''100.001'' ''fresh b'',
      mkUpdate ''200.000'' ''fresh c'']"

definition persistedExample :: "Update list" where
  "persistedExample = [mkUpdate ''200.000'' ''stored c'', mkUpdate ''50.000'' ''stored d'']"

text \<open>
  \<^verbatim>\<open>strings.ToLower\<close> on strings of ASCII bytes: the letters A to Z are mapped to a to z.
\<close>

definition asciiToLower :: "string \<Rightarrow> string" where
  "asciiToLower s =
     map (\<lambda>c. if 65 \<le> (of_char c :: nat) \<and> (of_char c :: nat) \<le> 90
              then char_of ((of_char c :: nat) + 32) else c) s"

text \<open>
  A run in which the channel is cached as row 7, its watermark is NULL, and the remote
  history is one empty last page.
\<close>

definition quietWorld :: world where
  "quietWorld =
     \<lparr>dbPresent = True,
      ToLower = asciiToLower,
      selectChannel = (\<lambda>name. Row (7, ''C07'')),
      GetConversations = (\<lambda>n. ConversationsPage [] []),
      upsertReturning = (\<lambda>slackID name. Some 7),
      selectLastFetched = (\<lambda>rowID. Row None),
      GetConversationHistory = (\<lambda>n. HistoryPage [] False []),
      GetPermalink = (\<lambda>channel ts. None),
      execUpdateLastFetched = (\<lambda>rowID. True),
      weekAgo = 1000,
      dayAgo = 2000,
      selectMessages = (\<lambda>rowID. Some []),
      scanTimestamp = (\<lambda>ts. True),
      execSaveMessage = (\<lambda>rowID u. True)\<rparr>"

definition plainMessage :: Message where
  "plainMessage =
     \<lparr>BotID = [], SubType = [], MsgType = ''message'', ThreadTimestamp = [],
      MsgTimestamp = ''1738387800.000100'', MsgText = ''lunch at noon''\<rparr>"

text \<open>A reply in a thread that is also sent to the channel.\<close>

definition broadcastReply :: Message where
  "broadcastReply =
     \<lparr>BotID = [], SubType = ''thread_broadcast'', MsgType = ''message'',
      ThreadTimestamp = ''1738387800.000100'', MsgTimestamp = ''1738387900.000200'',
      MsgText = ''fix is deployed''\<rparr>"


text \<open>The remote history answers twice with a rate limit, then with a last page.\<close>

definition limitedTwice :: world where
  "limitedTwice =
     quietWorld\<lparr>GetConversationHistory :=
       (\<lambda>n. if n < 2 then HistoryError ''ratelimited'' else HistoryPage [plainMessage] False [])\<rparr>"


text \<open>
  The remote history answers with the error text of an HTTP status 429, which does not
  hold the word "ratelimited".
\<close>

definition tooManyRequests :: world where
  "tooManyRequests =
     quietWorld\<lparr>GetConversationHistory :=
       (\<lambda>n. HistoryError ''slack rate limit exceeded, retry after 1s'')\<rparr>"

text \<open>The remote history fails.\<close>

definition brokenWorld :: world where
  "brokenWorld = quietWorld\<lparr>GetConversationHistory := (\<lambda>n. HistoryError ''connection reset'')\<rparr>"

text \<open>
  The channel is not cached, the second page of the directory lists it, and the upsert
  fails.
\<close>

definition directoryWorld :: world where
  "directoryWorld =
     quietWorld\<lparr>selectChannel := (\<lambda>name. NoRows),
       GetConversations :=
         (\<lambda>n. if n = 0 then ConversationsPage [\<lparr>ChanID = ''C01'', ChanName = ''random''\<rparr>] ''page2''
              else ConversationsPage [\<lparr>ChanID = ''C02'', ChanName = ''support-tier1''\<rparr>] []),
       upsertReturning := (\<lambda>slackID name. None)\<rparr>"



section \<open>Properties of the merge\<close>


lemma seen_inv_empty: "seen_inv Map.empty []"
  by (simp add: seen_inv_def seenLookup_def)

lemma seen_inv_step:
  assumes "seen_inv m us"
  shows "seen_inv (m(Timestamp u \<mapsto> True)) (us @ [u])"
  using assms by (auto simp: seen_inv_def seenLookup_def)

lemma mergeLoop_inv:
  "seen_inv m us \<Longrightarrow> seen_inv (fst (mergeLoop xs m us)) (snd (mergeLoop xs m us))"
  by (induction xs arbitrary: m us) (simp_all add: seen_inv_step)

lemma mergeLoop_distinct:
  "seen_inv m us \<Longrightarrow> distinct (map Timestamp us) \<Longrightarrow>
   distinct (map Timestamp (snd (mergeLoop xs m us)))"
proof (induction xs arbitrary: m us)
  case Nil
  then show ?case by simp
next
  case (Cons x xs)
  show ?case
  proof (cases "seenLookup m (Timestamp x)")
    case True
    with Cons show ?thesis by simp
  next
    case False
    with Cons.prems have fresh: "Timestamp x \<notin> Timestamp ` set us"
      by (simp add: seen_inv_def)
    have "distinct (map Timestamp (us @ [x]))"
      using Cons.prems(2) fresh by simp
    then have "distinct (map Timestamp (snd (mergeLoop xs (m(Timestamp x \<mapsto> True)) (us @ [x]))))"
      by (rule Cons.IH [OF seen_inv_step [OF Cons.prems(1)]])
    with False show ?thesis by simp
  qed
qed

lemma mergeLoop_keys:
  "seen_inv m us \<Longrightarrow>
   Timestamp ` set (snd (mergeLoop xs m us)) = Timestamp ` set us \<union> Timestamp ` set xs"
proof (induction xs arbitrary: m us)
  case Nil
  then show ?case by simp
next
  case (Cons x xs)
  show ?case
  proof (cases "seenLookup m (Timestamp x)")
    case True
    with Cons.prems have "Timestamp x \<in> Timestamp ` set us"
      by (simp add: seen_inv_def)
    with Cons True show ?thesis by auto
  next
    case False
    have "Timestamp ` set (snd (mergeLoop xs (m(Timestamp x \<mapsto> True)) (us @ [x])))
        = Timestamp ` set (us @ [x]) \<union> Timestamp ` set xs"
      by (rule Cons.IH [OF seen_inv_step [OF Cons.prems]])
    with False show ?thesis by auto
  qed
qed

text \<open>
  Every element the loop adds is the first element of its input carrying that timestamp,
  and that timestamp was not collected before.
\<close>

lemma mergeLoop_added:
  "seen_inv m us \<Longrightarrow> u \<in> set (snd (mergeLoop xs m us)) \<Longrightarrow> u \<notin> set us \<Longrightarrow>
   find (\<lambda>y. Timestamp y = Timestamp u) xs = Some u \<and> Timestamp u \<notin> Timestamp ` set us"
proof (induction xs arbitrary: m us)
  case Nil
  then show ?case by simp
next
  case (Cons x xs)
  show ?case
  proof (cases "seenLookup m (Timestamp x)")
    case True
    with Cons.prems have seen: "Timestamp x \<in> Timestamp ` set us"
      by (simp add: seen_inv_def)
    from True Cons.prems have "u \<in> set (snd (mergeLoop xs m us))" by simp
    from Cons.IH [OF Cons.prems(1) this Cons.prems(3)]
    have *: "find (\<lambda>y. Timestamp y = Timestamp u) xs = Some u"
      and **: "Timestamp u \<notin> Timestamp ` set us" by simp_all
    from seen ** have "Timestamp x \<noteq> Timestamp u" by auto
    with * ** show ?thesis by simp
  next
    case False
    with Cons.prems(1) have fresh: "Timestamp x \<notin> Timestamp ` set us"
      by (simp add: seen_inv_def)
    from False Cons.prems(2)
    have mem: "u \<in> set (snd (mergeLoop xs (m(Timestamp x \<mapsto> True)) (us @ [x])))" by simp
    show ?thesis
    proof (cases "u = x")
      case True
      with fresh show ?thesis by simp
    next
      case False
      with Cons.prems(3) have "u \<notin> set (us @ [x])" by simp
      from Cons.IH [OF seen_inv_step [OF Cons.prems(1)] mem this]
      have *: "find (\<lambda>y. Timestamp y = Timestamp u) xs = Some u"
        and **: "Timestamp u \<notin> Timestamp ` set (us @ [x])" by simp_all
      from ** have "Timestamp x \<noteq> Timestamp u" by auto
      with * ** show ?thesis by auto
    qed
  qed
qed

text \<open>
  Claim C1. The merge of the fetched (fresh) and the stored (persisted) updates holds every
  timestamp at most once, it holds exactly the timestamps of the two inputs, and for a
  timestamp that occurs among the fresh updates the element returned is the fresh copy
  (the first fresh update with that timestamp), whether or not a stored update has the same
  timestamp.
\<close>

theorem merge_dedup_fresh_wins:
  "distinct (map Timestamp (mergeUpdates fresh persisted)) \<and>
   Timestamp ` set (mergeUpdates fresh persisted)
     = Timestamp ` set fresh \<union> Timestamp ` set persisted \<and>
   (\<forall>u \<in> set (mergeUpdates fresh persisted).
      Timestamp u \<in> Timestamp ` set fresh \<longrightarrow>
      find (\<lambda>y. Timestamp y = Timestamp u) fresh = Some u)"
proof -
  obtain m1 us1 where l1: "mergeLoop fresh Map.empty [] = (m1, us1)"
    by (cases "mergeLoop fresh Map.empty []")
  have res: "mergeUpdates fresh persisted = snd (mergeLoop persisted m1 us1)"
    by (simp add: mergeUpdates_def l1)
  have inv1: "seen_inv m1 us1"
    using mergeLoop_inv [OF seen_inv_empty, of fresh] by (simp add: l1)
  have d1: "distinct (map Timestamp us1)"
    using mergeLoop_distinct [OF seen_inv_empty, of fresh] by (simp add: l1)
  have k1: "Timestamp ` set us1 = Timestamp ` set fresh"
    using mergeLoop_keys [OF seen_inv_empty, of fresh] by (simp add: l1)
  have a1: "find (\<lambda>y. Timestamp y = Timestamp u) fresh = Some u" if "u \<in> set us1" for u
    using mergeLoop_added [OF seen_inv_empty, of u fresh] that by (simp add: l1)
  have "distinct (map Timestamp (mergeUpdates fresh persisted))"
    unfolding res by (rule mergeLoop_distinct [OF inv1 d1])
  moreover have "Timestamp ` set (mergeUpdates fresh persisted)
      = Timestamp ` set fresh \<union> Timestamp ` set persisted"
    unfolding res using mergeLoop_keys [OF inv1, of persisted] k1 by simp
  moreover have "find (\<lambda>y. Timestamp y = Timestamp u) fresh = Some u"
    if mem: "u \<in> set (mergeUpdates fresh persisted)"
      and key: "Timestamp u \<in> Timestamp ` set fresh" for u
  proof (cases "u \<in> set us1")
    case True
    then show ?thesis by (rule a1)
  next
    case False
    from mem have "u \<in> set (snd (mergeLoop persisted m1 us1))" by (simp add: res)
    from mergeLoop_added [OF inv1 this False] have "Timestamp u \<notin> Timestamp ` set us1"
      by simp
    with key k1 show ?thesis by simp
  qed
  ultimately show ?thesis by blast
qed

lemma merge_example:
  "mergeUpdates freshExample persistedExample
     = [mkUpdate ''100.001'' ''fresh a'', mkUpdate ''200.000'' ''fresh c'',
        mkUpdate ''50.000'' ''stored d'']"
  by (simp add: mergeUpdates_def freshExample_def persistedExample_def mkUpdate_def seenLookup_def)

text \<open>
  The scenario of the specification: the timestamp 200.000 occurs in both inputs and the
  merge keeps the fresh copy.
\<close>

theorem merge_dedup_fresh_wins_witness:
  "mkUpdate ''200.000'' ''fresh c'' \<in> set (mergeUpdates freshExample persistedExample) \<and>
   Timestamp (mkUpdate ''200.000'' ''fresh c'') \<in> Timestamp ` set freshExample \<and>
   Timestamp (mkUpdate ''200.000'' ''fresh c'') \<in> Timestamp ` set persistedExample \<and>
   find (\<lambda>y. Timestamp y = Timestamp (mkUpdate ''200.000'' ''fresh c'')) freshExample
     = Some (mkUpdate ''200.000'' ''fresh c'')"
proof -
  have mem: "mkUpdate ''200.000'' ''fresh c'' \<in> set (mergeUpdates freshExample persistedExample)"
    by (simp add: merge_example)
  have key: "Timestamp (mkUpdate ''200.000'' ''fresh c'') \<in> Timestamp ` set freshExample"
    by (simp add: freshExample_def mkUpdate_def)
  have key': "Timestamp (mkUpdate ''200.000'' ''fresh c'') \<in> Timestamp ` set persistedExample"
    by (simp add: persistedExample_def mkUpdate_def)
  from merge_dedup_fresh_wins [of freshExample persistedExample] mem key
  have "find (\<lambda>y. Timestamp y = Timestamp (mkUpdate ''200.000'' ''fresh c'')) freshExample
     = Some (mkUpdate ''200.000'' ''fresh c'')"
    by blast
  with mem key key' show ?thesis by blast
qed

section \<open>Properties of the digest request\<close>

lemma sum_filter_drop_le:
  fixes f :: "'a \<Rightarrow> nat"
  shows "sum_list (map f (filter P (drop m xs))) \<le> sum_list (map f (filter P xs))"
proof -
  have "sum_list (map f (filter P xs))
      = sum_list (map f (filter P (take m xs))) + sum_list (map f (filter P (drop m xs)))"
    by (metis append_take_drop_id filter_append map_append sum_list_append)
  then show ?thesis by simp
qed

lemma lineOf_Some: "formatTimestamp L (Timestamp u) = Some ft \<Longrightarrow> lineOf L u = messageLine ft u"
  by (simp add: lineOf_def)

lemma tokensOf_Some: "formatTimestamp L (Timestamp u) = Some ft \<Longrightarrow> tokensOf L u = lineTokens ft u"
  by (simp add: tokensOf_def lineTokens_def lineOf_def)

lemma promptLoop_cut:
  "n \<le> length s \<Longrightarrow>
   \<exists>k\<le>n.
     sb (promptLoop L s n st)
       = sb st @ concat (map (lineOf L) (rev (filter (renderable L) (drop k (take n s))))) \<and>
     currentTokenCount (promptLoop L s n st)
       = currentTokenCount st + sum_list (map (tokensOf L) (filter (renderable L) (drop k (take n s)))) \<and>
     includedMessages (promptLoop L s n st)
       = includedMessages st + length (filter (renderable L) (drop k (take n s))) \<and>
     (currentTokenCount st \<le> maxPromptLength \<longrightarrow>
        currentTokenCount (promptLoop L s n st) \<le> maxPromptLength) \<and>
     (0 < k \<longrightarrow> renderable L (s ! (k - 1)) \<and>
        maxPromptLength < currentTokenCount (promptLoop L s n st) + tokensOf L (s ! (k - 1)))"
proof (induction n arbitrary: st)
  case 0
  show ?case by simp
next
  case (Suc n)
  then have n: "n \<le> length s" and nlt: "n < length s" by simp_all
  have tk: "take (Suc n) s = take n s @ [s ! n]"
    using nlt by (simp add: take_Suc_conv_app_nth)
  have dr: "drop k (take (Suc n) s) = drop k (take n s) @ [s ! n]" if "k \<le> n" for k
    using that n by (simp add: tk)
  show ?case
  proof (cases "formatTimestamp L (Timestamp (s ! n))")
    case None
    then have nr: "\<not> renderable L (s ! n)" by (simp add: renderable_def)
    from Suc.IH [OF n, of st] obtain k where k: "k \<le> n"
      and ih: "sb (promptLoop L s n st)
         = sb st @ concat (map (lineOf L) (rev (filter (renderable L) (drop k (take n s)))))"
        "currentTokenCount (promptLoop L s n st)
         = currentTokenCount st + sum_list (map (tokensOf L) (filter (renderable L) (drop k (take n s))))"
        "includedMessages (promptLoop L s n st)
         = includedMessages st + length (filter (renderable L) (drop k (take n s)))"
        "currentTokenCount st \<le> maxPromptLength \<longrightarrow>
          currentTokenCount (promptLoop L s n st) \<le> maxPromptLength"
        "0 < k \<longrightarrow> renderable L (s ! (k - 1)) \<and>
          maxPromptLength < currentTokenCount (promptLoop L s n st) + tokensOf L (s ! (k - 1))"
      by blast
    have step: "promptLoop L s (Suc n) st = promptLoop L s n st"
      using None by simp
    have fl: "filter (renderable L) (drop k (take (Suc n) s)) = filter (renderable L) (drop k (take n s))"
      using dr [OF k] nr by simp
    show ?thesis
      apply (rule exI [of _ k])
      unfolding step fl using k ih by simp
  next
    case (Some ft)
    then have r: "renderable L (s ! n)" by (simp add: renderable_def)
    note ln = lineOf_Some [OF Some] and tk' = tokensOf_Some [OF Some]
    show ?thesis
    proof (cases "currentTokenCount st + lineTokens ft (s ! n) > maxPromptLength")
      case True
      then have step: "promptLoop L s (Suc n) st = st"
        using Some by simp
      show ?thesis
        apply (rule exI [of _ "Suc n"])
        unfolding step using True r tk' by simp
    next
      case False
      define st' where "st' = \<lparr>sb = sb st @ messageLine ft (s ! n),
                  currentTokenCount = currentTokenCount st + lineTokens ft (s ! n),
                  includedMessages = includedMessages st + 1\<rparr>"
      have step: "promptLoop L s (Suc n) st = promptLoop L s n st'"
        using Some False by (simp add: st'_def)
      from Suc.IH [OF n, of st'] obtain k where k: "k \<le> n"
        and ih: "sb (promptLoop L s n st')
           = sb st' @ concat (map (lineOf L) (rev (filter (renderable L) (drop k (take n s)))))"
          "currentTokenCount (promptLoop L s n st')
           = currentTokenCount st' + sum_list (map (tokensOf L) (filter (renderable L) (drop k (take n s))))"
          "includedMessages (promptLoop L s n st')
           = includedMessages st' + length (filter (renderable L) (drop k (take n s)))"
          "currentTokenCount st' \<le> maxPromptLength \<longrightarrow>
            currentTokenCount (promptLoop L s n st') \<le> maxPromptLength"
          "0 < k \<longrightarrow> renderable L (s ! (k - 1)) \<and>
            maxPromptLength < currentTokenCount (promptLoop L s n st') + tokensOf L (s ! (k - 1))"
        by blast
      have fl: "filter (renderable L) (drop k (take (Suc n) s))
           = filter (renderable L) (drop k (take n s)) @ [s ! n]"
        using dr [OF k] r by simp
      have st'_le: "currentTokenCount st' \<le> maxPromptLength"
        using False by (simp add: st'_def)
      show ?thesis
        apply (rule exI [of _ k])
        unfolding step fl using k ih st'_le by (simp add: st'_def ln tk')
    qed
  qed
qed

lemma spaceWidth_plain:
  "\<not> asciiSpace (of_char c) \<Longrightarrow> (of_char c :: nat) < 128 \<Longrightarrow> spaceWidth (c # s) = 0"
  by (auto simp: spaceWidth_def spaceRune2_def spaceRune3_def split: list.splits)

lemma spaceWidth_ascii: "asciiSpace (of_char c) \<Longrightarrow> spaceWidth (c # s) = 1"
  by (simp add: spaceWidth_def)

lemma spaceWidthRev_plain:
  "\<not> asciiSpace (of_char c) \<Longrightarrow> (of_char c :: nat) < 128 \<Longrightarrow> spaceWidthRev (c # s) = 0"
  by (auto simp: spaceWidthRev_def spaceRune2_def spaceRune3_def split: list.splits)

lemma fieldsFrom_plain:
  "\<not> asciiSpace (of_char c) \<Longrightarrow> (of_char c :: nat) < 128 \<Longrightarrow>
   fieldsFrom (c # s) cur 0 = fieldsFrom s (cur @ [c]) 0"
  by (simp add: spaceWidth_plain)

lemma fieldsFrom_ascii:
  "asciiSpace (of_char c) \<Longrightarrow>
   fieldsFrom (c # s) cur 0 = (if cur = [] then fieldsFrom s [] 0 else cur # fieldsFrom s [] 0)"
  by (simp add: spaceWidth_ascii)

lemma fieldsFrom_word: "fieldsFrom (''a '' @ s) cur 0 = (cur @ ''a'') # fieldsFrom s [] 0"
  by (simp add: fieldsFrom_plain fieldsFrom_ascii asciiSpace_def del: fieldsFrom.simps)

lemma fieldsFrom_words:
  "length (fieldsFrom (concat (replicate n ''a '') @ s) [] 0) = n + length (fieldsFrom s [] 0)"
proof (induction n)
  case 0
  show ?case by simp
next
  case (Suc n)
  have "concat (replicate (Suc n) ''a '') @ s = ''a '' @ (concat (replicate n ''a '') @ s)"
    by simp
  then show ?case
    using Suc fieldsFrom_word by (simp del: fieldsFrom.simps)
qed

lemma TrimSpace_plain:
  assumes "spaceWidth s = 0" and "spaceWidthRev (rev s) = 0"
  shows "TrimSpace s = s"
proof -
  have l: "trimLeftFrom s 0 = s"
    using assms(1) by (cases s) simp_all
  have "trimRightFrom (rev s) 0 = rev s"
    using assms(2) by (cases "rev s") simp_all
  with l show ?thesis by (simp add: TrimSpace_def)
qed

lemma spaceWidth_words: "spaceWidth (concat (replicate n ''a '') @ ''a'') = 0"
  by (cases n) (simp_all add: spaceWidth_plain asciiSpace_def)

lemma spaceWidthRev_words: "spaceWidthRev (rev (concat (replicate n ''a '') @ ''a'')) = 0"
  by (simp add: spaceWidthRev_plain asciiSpace_def)

lemma TrimSpace_longText: "TrimSpace longText = longText"
  unfolding longText_def by (rule TrimSpace_plain [OF spaceWidth_words spaceWidthRev_words])

lemma formatTimestamp_longUpdate:
  "formatTimestamp (layoutJST exampleEnv) (Timestamp longUpdate) = Some ''2025-02-01 14:30:00 JST''"
  by (simp add: formatTimestamp_def longUpdate_def exampleEnv_def ParseInt_def digitOf_def)

lemma tokensOf_longUpdate: "tokensOf (layoutJST exampleEnv) longUpdate = 3808"
proof -
  have "lineOf (layoutJST exampleEnv) longUpdate
      = ''[2025-02-01 14:30:00 JST] #general: '' @ concat (replicate 3800 ''a '')
          @ ''a Link: <https://x/p1|View Message>'' @ [CHR 0x0A]"
    by (simp add: lineOf_def formatTimestamp_longUpdate messageLine_def formatMessage_def)
       (simp add: longUpdate_def TrimSpace_longText, simp add: longText_def)
  moreover have "length (fieldsFrom (''[2025-02-01 14:30:00 JST] #general: '' @ s) [] 0)
      = 4 + length (fieldsFrom s [] 0)" for s
    by (simp add: fieldsFrom_plain fieldsFrom_ascii asciiSpace_def del: fieldsFrom.simps)
  moreover have "length (fieldsFrom (''a Link: <https://x/p1|View Message>'' @ [CHR 0x0A]) [] 0) = 4"
    by (simp add: fieldsFrom_plain fieldsFrom_ascii asciiSpace_def del: fieldsFrom.simps(2))
  ultimately show ?thesis
    by (simp add: tokensOf_def Fields_def fieldsFrom_words del: fieldsFrom.simps replicate.simps)
qed

lemma find_holds_member: "find P xs = Some x \<Longrightarrow> P x \<and> x \<in> set xs"
  by (induction xs) (auto split: if_splits)

lemma promptLoop_unchanged:
  "n \<le> length s \<Longrightarrow>
   (case find (renderable L) (rev (take n s)) of
      None \<Rightarrow> True
    | Some u \<Rightarrow> maxPromptLength < currentTokenCount st + tokensOf L u) \<Longrightarrow>
   promptLoop L s n st = st"
proof (induction n)
  case 0
  show ?case by simp
next
  case (Suc n)
  then have n: "n \<le> length s" and nlt: "n < length s" by simp_all
  have rv: "rev (take (Suc n) s) = s ! n # rev (take n s)"
    using nlt by (simp add: take_Suc_conv_app_nth)
  show ?case
  proof (cases "formatTimestamp L (Timestamp (s ! n))")
    case None
    then have "\<not> renderable L (s ! n)" by (simp add: renderable_def)
    with Suc.prems(2) have "case find (renderable L) (rev (take n s)) of
        None \<Rightarrow> True | Some u \<Rightarrow> maxPromptLength < currentTokenCount st + tokensOf L u"
      by (simp add: rv)
    from Suc.IH [OF n this] None show ?thesis by simp
  next
    case (Some ft)
    then have "renderable L (s ! n)" by (simp add: renderable_def)
    with Suc.prems(2) have "maxPromptLength < currentTokenCount st + tokensOf L (s ! n)"
      by (simp add: rv)
    with Some show ?thesis by (simp add: tokensOf_Some)
  qed
qed

subsection \<open>The cut in the sorted slice\<close>

lemma order_of_sorted:
  assumes "\<not> updateLess b a"
  shows "orderedBefore a b"
  using assms by (auto simp: updateLess_def orderedBefore_def split: option.splits if_splits)


lemma sorted_cut_order:
  assumes srt: "sorted_wrt (\<lambda>a b. \<not> updateLess b a) s"
    and "i < k" "k \<le> j" "j < length s"
  shows "orderedBefore (s ! i) (s ! j)"
proof -
  from assms have "i < j" "j < length s" by simp_all
  with srt have "\<not> updateLess (s ! j) (s ! i)"
    by (simp add: sorted_wrt_iff_nth_less)
  then show ?thesis by (rule order_of_sorted)
qed

lemma orderedBefore_priority: "orderedBefore a b \<Longrightarrow> Priority a \<le> Priority b"
  by (auto simp: orderedBefore_def)

lemma orderedBefore_parsed:
  assumes "FormatTimestamp (Timestamp a) = Some ta" and "FormatTimestamp (Timestamp b) = Some tb"
  shows "orderedBefore a b \<longleftrightarrow>
     Priority a < Priority b \<or> (Priority a = Priority b \<and> \<not> Before tb ta)"
  by (simp add: orderedBefore_def assms)

text \<open>
  On updates whose timestamps all parse in \<^verbatim>\<open>FormatTimestamp\<close> the comparison is a
  strict weak order, and the insertion sort of the examples returns them in its order.
\<close>

lemma updateLess_asym: "updateLess a b \<Longrightarrow> \<not> updateLess b a"
  by (auto simp: updateLess_def Before_def split: option.splits if_splits)

lemma updateLess_parsed_trans:
  assumes "FormatTimestamp (Timestamp a) \<noteq> None" "FormatTimestamp (Timestamp b) \<noteq> None"
    "FormatTimestamp (Timestamp c) \<noteq> None"
    and "\<not> updateLess b a" "\<not> updateLess c b"
  shows "\<not> updateLess c a"
  using assms by (auto simp: updateLess_def Before_def split: if_splits)

lemma insertStable_set: "set (insertStable lt x ys) = insert x (set ys)"
  by (induction ys) auto

lemma insertStable_sorted:
  assumes asym: "\<And>a b. lt a b \<Longrightarrow> \<not> lt b a"
    and nt: "\<And>a b c. Q a \<Longrightarrow> Q b \<Longrightarrow> Q c \<Longrightarrow> \<not> lt b a \<Longrightarrow> \<not> lt c b \<Longrightarrow> \<not> lt c a"
  shows "Q x \<Longrightarrow> \<forall>y\<in>set ys. Q y \<Longrightarrow> sorted_wrt (\<lambda>a b. \<not> lt b a) ys \<Longrightarrow>
    sorted_wrt (\<lambda>a b. \<not> lt b a) (insertStable lt x ys)"
proof (induction ys)
  case Nil
  show ?case by simp
next
  case (Cons y ys)
  show ?case
  proof (cases "lt y x")
    case True
    then have "\<not> lt x y" by (rule asym)
    with True Cons show ?thesis by (simp add: insertStable_set)
  next
    case False
    have "\<not> lt z x" if "z \<in> set ys" for z
    proof -
      from that Cons.prems have "\<not> lt z y" "Q z" "Q y" by simp_all
      with False Cons.prems(1) nt [of x y z] show ?thesis by blast
    qed
    with False Cons.prems show ?thesis by simp
  qed
qed

lemma insertionSortStable_set: "set (insertionSortStable lt xs) = set xs"
  by (induction xs) (simp_all add: insertionSortStable_def insertStable_set)

lemma insertionSortStable_sorted:
  assumes asym: "\<And>a b. lt a b \<Longrightarrow> \<not> lt b a"
    and nt: "\<And>a b c. Q a \<Longrightarrow> Q b \<Longrightarrow> Q c \<Longrightarrow> \<not> lt b a \<Longrightarrow> \<not> lt c b \<Longrightarrow> \<not> lt c a"
  shows "\<forall>x\<in>set xs. Q x \<Longrightarrow> sorted_wrt (\<lambda>a b. \<not> lt b a) (insertionSortStable lt xs)"
proof (induction xs)
  case Nil
  show ?case by (simp add: insertionSortStable_def)
next
  case (Cons x xs)
  then have ih: "sorted_wrt (\<lambda>a b. \<not> lt b a) (insertionSortStable lt xs)"
    and q: "Q x" "\<forall>y\<in>set (insertionSortStable lt xs). Q y"
    by (simp_all add: insertionSortStable_set)
  have "insertionSortStable lt (x # xs) = insertStable lt x (insertionSortStable lt xs)"
    by (simp add: insertionSortStable_def)
  with insertStable_sorted [of lt Q x "insertionSortStable lt xs", OF asym nt q ih]
  show ?case by simp
qed

lemma parsed_timestamps_sorted:
  assumes "\<forall>u\<in>set updates. FormatTimestamp (Timestamp u) \<noteq> None"
  shows "sorted_wrt (\<lambda>a b. \<not> updateLess b a) (insertionSortStable updateLess updates)"
proof (rule insertionSortStable_sorted [where Q = "\<lambda>u. FormatTimestamp (Timestamp u) \<noteq> None"])
  show "\<not> updateLess b a" if "updateLess a b" for a b
    using that by (rule updateLess_asym)
  show "\<not> updateLess c a"
    if "FormatTimestamp (Timestamp a) \<noteq> None" "FormatTimestamp (Timestamp b) \<noteq> None"
      "FormatTimestamp (Timestamp c) \<noteq> None" "\<not> updateLess b a" "\<not> updateLess c b" for a b c
    using that by (rule updateLess_parsed_trans)
  show "\<forall>u\<in>set updates. FormatTimestamp (Timestamp u) \<noteq> None"
    by (rule assms)
qed


text \<open>
  Claim C2, as the code has it. Let \<open>s\<close> be the slice after sorting. There is a cut
  \<open>k\<close> such that the message block holds exactly the lines of the renderable updates at
  the positions \<open>k\<close> and above of \<open>s\<close>, last position first. The running word count,
  which after the loop has passed position \<open>j\<close> is the sum over the renderable updates
  from \<open>j\<close> on, never exceeds \<open>maxPromptLength\<close>. When the loop stopped for the
  budget (\<open>0 < k\<close>) it stopped at the update at position \<open>k - 1\<close>, whose line would
  have taken the count over the budget: every update left out for the budget stands at a
  position below \<open>k\<close>. When the sort has returned the slice in the order of the
  comparison it was given, every update below the cut stands not after any update at or
  above the cut: its priority is lower, or the priorities are equal and its timestamp
  is not the later one, by the parsed times when both timestamps parse as seconds and
  fraction, by the strings byte by byte otherwise. Every prompt sent to the model is
  rendered from this block.
\<close>

theorem prompt_within_budget_drops_low_end:
  "\<exists>k\<le>length (sliceStable env updateLess updates).
     (let s = sliceStable env updateLess updates;
          L = layoutJST env;
          st = promptLoop L s (length s) initialPrompt
      in sb st = concat (map (lineOf L) (rev (filter (renderable L) (drop k s)))) \<and>
         includedMessages st = length (filter (renderable L) (drop k s)) \<and>
         currentTokenCount st = sum_list (map (tokensOf L) (filter (renderable L) (drop k s))) \<and>
         (\<forall>j\<ge>k. sum_list (map (tokensOf L) (filter (renderable L) (drop j s))) \<le> maxPromptLength) \<and>
         (0 < k \<longrightarrow> renderable L (s ! (k - 1)) \<and>
            maxPromptLength < currentTokenCount st + tokensOf L (s ! (k - 1))) \<and>
         (sorted_wrt (\<lambda>a b. \<not> updateLess b a) s \<longrightarrow>
            (\<forall>i<k. \<forall>j<length s. k \<le> j \<longrightarrow> orderedBefore (s ! i) (s ! j))) \<and>
         (\<forall>p\<in>set (snd (GenerateSummary env updates focus)).
            renderPrompt env focus (sb st) = Some p))"
proof -
  define s where "s = sliceStable env updateLess updates"
  define L where "L = layoutJST env"
  define st where "st = promptLoop L s (length s) initialPrompt"
  have ini: "sb initialPrompt = []" "currentTokenCount initialPrompt = 0"
    "includedMessages initialPrompt = 0"
    by (simp_all add: initialPrompt_def)
  have "\<exists>k\<le>length s.
     sb st = concat (map (lineOf L) (rev (filter (renderable L) (drop k s)))) \<and>
     currentTokenCount st = sum_list (map (tokensOf L) (filter (renderable L) (drop k s))) \<and>
     includedMessages st = length (filter (renderable L) (drop k s)) \<and>
     currentTokenCount st \<le> maxPromptLength \<and>
     (0 < k \<longrightarrow> renderable L (s ! (k - 1)) \<and>
        maxPromptLength < currentTokenCount st + tokensOf L (s ! (k - 1)))"
    using promptLoop_cut [of "length s" s L initialPrompt]
    unfolding st_def [symmetric] by (simp add: ini)
  then obtain k where k: "k \<le> length s"
    and c1: "sb st = concat (map (lineOf L) (rev (filter (renderable L) (drop k s))))"
    and c2: "currentTokenCount st = sum_list (map (tokensOf L) (filter (renderable L) (drop k s)))"
    and c3: "includedMessages st = length (filter (renderable L) (drop k s))"
    and c4: "currentTokenCount st \<le> maxPromptLength"
    and c5: "0 < k \<longrightarrow> renderable L (s ! (k - 1)) \<and>
            maxPromptLength < currentTokenCount st + tokensOf L (s ! (k - 1))"
    by blast
  have c6: "sum_list (map (tokensOf L) (filter (renderable L) (drop j s))) \<le> maxPromptLength"
    if "k \<le> j" for j
  proof -
    have "drop j s = drop (j - k) (drop k s)" using that by simp
    then have "sum_list (map (tokensOf L) (filter (renderable L) (drop j s)))
        \<le> sum_list (map (tokensOf L) (filter (renderable L) (drop k s)))"
      using sum_filter_drop_le [of "tokensOf L" "renderable L" "j - k" "drop k s"] by simp
    with c2 c4 show ?thesis by simp
  qed
  have c7: "renderPrompt env focus (sb st) = Some p"
    if "p \<in> set (snd (GenerateSummary env updates focus))" for p
    using that unfolding GenerateSummary_def Let_def s_def [symmetric] L_def [symmetric] st_def [symmetric]
    by (auto split: if_splits option.splits completion.splits list.splits)
  have c8: "orderedBefore (s ! i) (s ! j)"
    if "sorted_wrt (\<lambda>a b. \<not> updateLess b a) s" "i < k" "j < length s" "k \<le> j" for i j
    using that by (intro sorted_cut_order [of s i k j])
  show ?thesis
    unfolding Let_def s_def [symmetric] L_def [symmetric] st_def [symmetric]
    using k c1 c2 c3 c5 c6 c7 c8 by blast
qed

text \<open>
  Claim C9. For a non-empty list of updates, \<^verbatim>\<open>GenerateSummary\<close> returns the fixed string
  "No processable messages found within token limits." with no error and sends nothing to the
  model, when the first line rendered (that of the last renderable update of the sorted
  slice) already exceeds the budget or no update is renderable; in particular when the
  line of every renderable update exceeds the budget (the sort returning a permutation of
  its input).
\<close>

theorem no_line_fits_fixed_answer:
  assumes "updates \<noteq> []"
  shows "((case find (renderable (layoutJST env)) (rev (sliceStable env updateLess updates)) of
            None \<Rightarrow> True
          | Some u \<Rightarrow> maxPromptLength < tokensOf (layoutJST env) u) \<longrightarrow>
          GenerateSummary env updates focus
            = (Inr ''No processable messages found within token limits.'', [])) \<and>
         (mset (sliceStable env updateLess updates) = mset updates \<longrightarrow>
          (\<forall>u\<in>set updates. renderable (layoutJST env) u \<longrightarrow>
              maxPromptLength < tokensOf (layoutJST env) u) \<longrightarrow>
          GenerateSummary env updates focus
            = (Inr ''No processable messages found within token limits.'', []))"
proof -
  define s where "s = sliceStable env updateLess updates"
  define L where "L = layoutJST env"
  have first: "GenerateSummary env updates focus
            = (Inr ''No processable messages found within token limits.'', [])"
    if h: "case find (renderable L) (rev s) of
            None \<Rightarrow> True | Some u \<Rightarrow> maxPromptLength < tokensOf L u"
  proof -
    have "currentTokenCount initialPrompt = 0"
      by (simp add: initialPrompt_def)
    with h have "promptLoop L s (length s) initialPrompt = initialPrompt"
      by (intro promptLoop_unchanged) (simp_all split: option.splits)
    then show ?thesis
      using assms by (simp add: GenerateSummary_def Let_def s_def L_def initialPrompt_def)
  qed
  have "case find (renderable L) (rev s) of
            None \<Rightarrow> True | Some u \<Rightarrow> maxPromptLength < tokensOf L u"
    if m: "mset s = mset updates"
      and a: "\<forall>u\<in>set updates. renderable L u \<longrightarrow> maxPromptLength < tokensOf L u"
  proof (cases "find (renderable L) (rev s)")
    case None
    then show ?thesis by simp
  next
    case (Some u)
    from find_holds_member [OF this] have "renderable L u" and "u \<in> set s"
      by simp_all
    moreover from m have "set s = set updates" by (rule mset_eq_setD)
    ultimately show ?thesis using a Some by simp
  qed
  with first show ?thesis
    unfolding s_def L_def by blast
qed

text \<open>
  Claim C10. For the empty list of updates \<^verbatim>\<open>GenerateSummary\<close> returns the fixed string
  "No new updates found." with no error, whatever the sort, the template and the model
  client are, and no prompt is sent to the client.
\<close>

theorem empty_updates_fixed_answer:
  "GenerateSummary env [] focus = (Inr ''No new updates found.'', [])"
  by (simp add: GenerateSummary_def)

lemma sorted_exampleUpdates:
  "sliceStable exampleEnv updateLess exampleUpdates = [lowUpdate, longUpdate, highUpdate]"
  by (simp add: exampleEnv_def exampleUpdates_def insertionSortStable_def updateLess_def
      highUpdate_def lowUpdate_def longUpdate_def)

lemma renderable_examples:
  "renderable (layoutJST exampleEnv) lowUpdate"
  "renderable (layoutJST exampleEnv) longUpdate"
  "renderable (layoutJST exampleEnv) highUpdate"
  by (simp_all add: renderable_def formatTimestamp_def ParseInt_def digitOf_def
      highUpdate_def lowUpdate_def longUpdate_def)

lemma sorted_exampleUpdates_order:
  "sorted_wrt (\<lambda>a b. \<not> updateLess b a) (sliceStable exampleEnv updateLess exampleUpdates)"
  unfolding sorted_exampleUpdates
  by (simp add: updateLess_def highUpdate_def lowUpdate_def longUpdate_def)

lemma tokensOf_highUpdate: "tokensOf (layoutJST exampleEnv) highUpdate = 10"
proof -
  have "TrimSpace ''db is down'' = ''db is down''"
    by (rule TrimSpace_plain) (simp_all add: spaceWidth_plain spaceWidthRev_plain asciiSpace_def)
  moreover have "formatTimestamp (layoutJST exampleEnv) (Timestamp highUpdate)
      = Some ''2025-02-01 14:30:00 JST''"
    by (simp add: formatTimestamp_def highUpdate_def exampleEnv_def ParseInt_def digitOf_def)
  ultimately have "lineOf (layoutJST exampleEnv) highUpdate
      = ''[2025-02-01 14:30:00 JST] #general: db is down Link: <https://x/p3|View Message>'' @ [CHR 0x0A]"
    by (simp add: lineOf_def messageLine_def formatMessage_def) (simp add: highUpdate_def)
  then show ?thesis
    by (simp add: tokensOf_def Fields_def fieldsFrom_plain fieldsFrom_ascii asciiSpace_def
        del: fieldsFrom.simps(2))
qed

text \<open>
  The run of \<open>exampleUpdates\<close>: the sort returns the priorities 1, 2, 3 in this order,
  the line of the update of priority 3 is included, the line of the long update of
  priority 2 would exceed the budget, and the loop stops there: the cut is at most 2, and
  the update below it stands not after the included one.
\<close>

theorem prompt_within_budget_drops_low_end_witness:
  "sorted_wrt (\<lambda>a b. \<not> updateLess b a) (sliceStable exampleEnv updateLess exampleUpdates) \<and>
   (\<exists>k\<le>length (sliceStable exampleEnv updateLess exampleUpdates).
     0 < k \<and> k \<le> 2 \<and> 2 < length (sliceStable exampleEnv updateLess exampleUpdates) \<and>
     renderable (layoutJST exampleEnv) (sliceStable exampleEnv updateLess exampleUpdates ! (k - 1)) \<and>
     maxPromptLength <
       currentTokenCount (promptLoop (layoutJST exampleEnv)
          (sliceStable exampleEnv updateLess exampleUpdates)
          (length (sliceStable exampleEnv updateLess exampleUpdates)) initialPrompt)
       + tokensOf (layoutJST exampleEnv) (sliceStable exampleEnv updateLess exampleUpdates ! (k - 1)) \<and>
     orderedBefore (sliceStable exampleEnv updateLess exampleUpdates ! (k - 1))
       (sliceStable exampleEnv updateLess exampleUpdates ! 2))"
proof -
  define s where "s = sliceStable exampleEnv updateLess exampleUpdates"
  define L where "L = layoutJST exampleEnv"
  define st where "st = promptLoop L s (length s) initialPrompt"
  have s: "s = [lowUpdate, longUpdate, highUpdate]"
    unfolding s_def by (rule sorted_exampleUpdates)
  have srt: "sorted_wrt (\<lambda>a b. \<not> updateLess b a) s"
    unfolding s_def by (rule sorted_exampleUpdates_order)
  from prompt_within_budget_drops_low_end [of exampleEnv exampleUpdates "''default''"]
  obtain k where k: "k \<le> length s"
    and count: "currentTokenCount st = sum_list (map (tokensOf L) (filter (renderable L) (drop k s)))"
    and budget: "\<forall>j\<ge>k. sum_list (map (tokensOf L) (filter (renderable L) (drop j s))) \<le> maxPromptLength"
    and cut: "0 < k \<longrightarrow> renderable L (s ! (k - 1)) \<and>
       maxPromptLength < currentTokenCount st + tokensOf L (s ! (k - 1))"
    and ord: "sorted_wrt (\<lambda>a b. \<not> updateLess b a) s \<longrightarrow>
       (\<forall>i<k. \<forall>j<length s. k \<le> j \<longrightarrow> orderedBefore (s ! i) (s ! j))"
    unfolding Let_def s_def [symmetric] L_def [symmetric] st_def [symmetric] by blast
  have pos: "0 < k"
  proof (rule ccontr)
    assume "\<not> 0 < k"
    with budget have "sum_list (map (tokensOf L) (filter (renderable L) (drop 0 s))) \<le> maxPromptLength"
      by blast
    then show False
      by (simp add: s L_def renderable_examples tokensOf_longUpdate maxPromptLength_def)
  qed
  have le: "k \<le> 2"
  proof (rule ccontr)
    assume "\<not> k \<le> 2"
    with k have k3: "k = 3" by (simp add: s)
    with count have "currentTokenCount st = 0" by (simp add: s)
    with cut k3 have "maxPromptLength < tokensOf L highUpdate"
      by (simp add: s)
    then show False
      by (simp add: L_def tokensOf_highUpdate maxPromptLength_def)
  qed
  have len: "2 < length s" by (simp add: s)
  from ord srt pos le len have "orderedBefore (s ! (k - 1)) (s ! 2)"
    by simp
  with srt k pos le len cut show ?thesis
    unfolding s_def L_def st_def by blast
qed


subsection \<open>A later message left out for an earlier one\<close>

lemma updateLess_epoch: "updateLess newerUpdate olderUpdate" "\<not> updateLess olderUpdate newerUpdate"
  by (simp_all add: updateLess_def newerUpdate_def olderUpdate_def FormatTimestamp_def ParseInt_def digitOf_def split: option.splits)

lemma formatTimestamp_epoch_strings: "formatTimestamp epochDayLayout ''10'' = Some ''1970-01-01 09:00:10 JST''"
  "formatTimestamp epochDayLayout ''9.5'' = Some ''1970-01-01 09:00:09 JST''"
  by (simp_all add: formatTimestamp_def ParseInt_def digitOf_def epochDayLayout_def digit2_def)

lemma tokens_words_line:
  assumes pre: "\<And>s. length (fieldsFrom (pre @ s) [] 0) = 4 + length (fieldsFrom s [] 0)"
    and suf: "length (fieldsFrom (''a'' @ suf) [] 0) = 4"
  shows "length (Fields (pre @ concat (replicate n ''a '') @ ''a'' @ suf)) = 8 + n"
  using suf by (simp add: Fields_def pre fieldsFrom_words del: fieldsFrom.simps)

lemma TrimSpace_halfText: "TrimSpace halfText = halfText"
  unfolding halfText_def by (rule TrimSpace_plain [OF spaceWidth_words spaceWidthRev_words])

lemma formatTimestamp_epoch:
  "formatTimestamp (layoutJST epochEnv) (Timestamp newerUpdate) = Some ''1970-01-01 09:00:10 JST''"
  "formatTimestamp (layoutJST epochEnv) (Timestamp olderUpdate) = Some ''1970-01-01 09:00:09 JST''"
  by (simp_all add: epochEnv_def newerUpdate_def olderUpdate_def formatTimestamp_epoch_strings)

lemma lineTokens_newerUpdate: "lineTokens ''1970-01-01 09:00:10 JST'' newerUpdate = 2007"
proof -
  have "messageLine ''1970-01-01 09:00:10 JST'' newerUpdate
      = ''[1970-01-01 09:00:10 JST] #general: '' @ concat (replicate 1999 ''a '')
          @ ''a'' @ '' Link: <https://x/p5|View Message>'' @ [CHR 0x0A]"
    by (simp add: messageLine_def formatMessage_def)
       (simp add: newerUpdate_def TrimSpace_halfText, simp add: halfText_def)
  moreover have "length (fieldsFrom (''[1970-01-01 09:00:10 JST] #general: '' @ s) [] 0)
      = 4 + length (fieldsFrom s [] 0)" for s
    by (simp add: fieldsFrom_plain fieldsFrom_ascii asciiSpace_def del: fieldsFrom.simps)
  moreover have "length (fieldsFrom (''a'' @ '' Link: <https://x/p5|View Message>'' @ [CHR 0x0A]) [] 0) = 4"
    by (simp add: fieldsFrom_plain fieldsFrom_ascii asciiSpace_def del: fieldsFrom.simps(2))
  ultimately show ?thesis
    unfolding lineTokens_def by (simp only: tokens_words_line)
qed

lemma lineTokens_olderUpdate: "lineTokens ''1970-01-01 09:00:09 JST'' olderUpdate = 2007"
proof -
  have "messageLine ''1970-01-01 09:00:09 JST'' olderUpdate
      = ''[1970-01-01 09:00:09 JST] #general: '' @ concat (replicate 1999 ''a '')
          @ ''a'' @ '' Link: <https://x/p4|View Message>'' @ [CHR 0x0A]"
    by (simp add: messageLine_def formatMessage_def)
       (simp add: olderUpdate_def TrimSpace_halfText, simp add: halfText_def)
  moreover have "length (fieldsFrom (''[1970-01-01 09:00:09 JST] #general: '' @ s) [] 0)
      = 4 + length (fieldsFrom s [] 0)" for s
    by (simp add: fieldsFrom_plain fieldsFrom_ascii asciiSpace_def del: fieldsFrom.simps)
  moreover have "length (fieldsFrom (''a'' @ '' Link: <https://x/p4|View Message>'' @ [CHR 0x0A]) [] 0) = 4"
    by (simp add: fieldsFrom_plain fieldsFrom_ascii asciiSpace_def del: fieldsFrom.simps(2))
  ultimately show ?thesis
    unfolding lineTokens_def by (simp only: tokens_words_line)
qed

lemma sorted_epoch:
  "sliceStable epochEnv updateLess [olderUpdate, newerUpdate] = [newerUpdate, olderUpdate]"
  by (simp add: epochEnv_def exampleEnv_def insertionSortStable_def updateLess_epoch)

lemma promptLoop_epoch:
  "promptLoop (layoutJST epochEnv) [newerUpdate, olderUpdate] 2 initialPrompt
     = \<lparr>sb = messageLine ''1970-01-01 09:00:09 JST'' olderUpdate, currentTokenCount = 2007,
        includedMessages = 1\<rparr>"
  by (simp add: numeral_2_eq_2 formatTimestamp_epoch lineTokens_newerUpdate lineTokens_olderUpdate
      initialPrompt_def maxPromptLength_def)

text \<open>
  Claim C2 as stated orders the updates of one priority by their time. The timestamp "10"
  has no fraction and does not parse in \<^verbatim>\<open>FormatTimestamp\<close>, so the comparison falls
  back to the strings and puts it before "9.5"; in \<^verbatim>\<open>formatTimestamp\<close> both format, as
  the seconds 10 and 9. Of the two updates of equal priority, with lines of 2007 words
  each, the later one is left out for the budget and the earlier one is sent to the model.
\<close>

theorem newer_dropped_older_kept:
  "Priority newerUpdate = Priority olderUpdate \<and>
   formatTimestamp (layoutJST epochEnv) (Timestamp newerUpdate) = Some ''1970-01-01 09:00:10 JST'' \<and>
   formatTimestamp (layoutJST epochEnv) (Timestamp olderUpdate) = Some ''1970-01-01 09:00:09 JST'' \<and>
   sliceStable epochEnv updateLess [olderUpdate, newerUpdate] = [newerUpdate, olderUpdate] \<and>
   lineTokens ''1970-01-01 09:00:10 JST'' newerUpdate = 2007 \<and>
   lineTokens ''1970-01-01 09:00:09 JST'' olderUpdate = 2007 \<and>
   GenerateSummary epochEnv [olderUpdate, newerUpdate] ''default''
     = (Inr ''digest'', [''Messages: '' @ messageLine ''1970-01-01 09:00:09 JST'' olderUpdate])"
proof -
  have len: "length [newerUpdate, olderUpdate] = 2" by simp
  have "GenerateSummary epochEnv [olderUpdate, newerUpdate] ''default''
     = (Inr ''digest'', [''Messages: '' @ messageLine ''1970-01-01 09:00:09 JST'' olderUpdate])"
    unfolding GenerateSummary_def Let_def sorted_epoch len promptLoop_epoch
    by (simp add: epochEnv_def exampleEnv_def messageLine_def)
  then show ?thesis
    using formatTimestamp_epoch sorted_epoch lineTokens_newerUpdate lineTokens_olderUpdate
    by (simp add: newerUpdate_def olderUpdate_def)
qed


text \<open>The run of the single long update: its line has 3808 words.\<close>

theorem no_line_fits_fixed_answer_witness:
  "[longUpdate] \<noteq> [] \<and>
   (case find (renderable (layoutJST exampleEnv)) (rev (sliceStable exampleEnv updateLess [longUpdate])) of
      None \<Rightarrow> True
    | Some u \<Rightarrow> maxPromptLength < tokensOf (layoutJST exampleEnv) u) \<and>
   mset (sliceStable exampleEnv updateLess [longUpdate]) = mset [longUpdate] \<and>
   renderable (layoutJST exampleEnv) longUpdate \<and>
   maxPromptLength < tokensOf (layoutJST exampleEnv) longUpdate \<and>
   GenerateSummary exampleEnv [longUpdate] ''default''
     = (Inr ''No processable messages found within token limits.'', [])"
proof -
  have ne: "[longUpdate] \<noteq> []" by simp
  have srt: "sliceStable exampleEnv updateLess [longUpdate] = [longUpdate]"
    by (simp add: exampleEnv_def insertionSortStable_def)
  have big: "maxPromptLength < tokensOf (layoutJST exampleEnv) longUpdate"
    by (simp add: tokensOf_longUpdate maxPromptLength_def)
  from no_line_fits_fixed_answer [OF ne, of exampleEnv "''default''"] srt big renderable_examples(2)
  show ?thesis by simp
qed

section \<open>Properties of the Slack client and of the loop over the channels\<close>

subsection \<open>The classification of a message\<close>

text \<open>
  A text that contains a keyword of \<open>alertKeywords\<close> is an alert of priority 3 in every
  channel: the test for the alert keywords comes before the tests on the channel name.
\<close>

lemma alert_keyword_wins:
  "list_ex (Contains (toLower text)) alertKeywords \<Longrightarrow>
   categorizeMessage toLower channelName text = (''alert'', 3)"
  by (simp add: categorizeMessage_def Let_def)

lemma alert_keywords_listed:
  "kw \<in> set [''alert'', ''incident'', ''down'', ''critical'', ''p0'', ''sev0'', ''sev1''] \<Longrightarrow>
   Contains (toLower text) kw \<Longrightarrow>
   categorizeMessage toLower channelName text = (''alert'', 3)"
  by (rule alert_keyword_wins) (auto simp: alertKeywords_def)

text \<open>
  Claim C3. The keyword for an outage in \<open>alertKeywords\<close> is written with a space in
  front. A text that contains "outage" without a space before it, as at the start of a
  message, is therefore not an alert: in a support channel it stays in the category
  "support" with priority 2, where the claim asks for "alert" with priority 3.
\<close>

theorem outage_at_start_not_alert:
  "categorizeMessage asciiToLower ''support-tier1'' ''Outage in prod'' = (''support'', 2)"
  by code_simp

text \<open>
  The function of \<^verbatim>\<open>main.go\<close> takes the category from the channel name; its list of
  urgent terms holds "outage" without the space, and the term raises the priority by one.
\<close>

lemma outage_main_variant:
  "categorizeMessageMain asciiToLower ''support-tier1'' ''Outage in prod'' = (''support'', 3)"
  by code_simp

subsection \<open>The filter of the fetch loop\<close>

text \<open>
  What the two tests of lines 153 and 157 amount to: a message is passed over exactly when
  its bot id, its subtype or its thread timestamp is not empty.
\<close>

lemma processPage_skips:
  "BotID msg \<noteq> [] \<or> SubType msg \<noteq> [] \<or> ThreadTimestamp msg \<noteq> [] \<Longrightarrow>
   processPage w channelName channelSlackID (msg # rest) updates
     = processPage w channelName channelSlackID rest updates"
  by auto

lemma processPage_keeps:
  "BotID msg = [] \<Longrightarrow> SubType msg = [] \<Longrightarrow> ThreadTimestamp msg = [] \<Longrightarrow>
   processPage w channelName channelSlackID (msg # rest) updates
     = processPage w channelName channelSlackID rest
         (updates @
          [\<lparr>Text = MsgText msg, Timestamp = MsgTimestamp msg,
            Link = (case GetPermalink w channelSlackID (MsgTimestamp msg) of
                      Some link \<Rightarrow> link
                    | None \<Rightarrow> ''https://slack.com/archives/'' @ channelSlackID @ ''/p''
                                @ removeFirstDot (MsgTimestamp msg)),
            Channel = channelName,
            Category = fst (categorizeMessage (ToLower w) channelName (MsgText msg)),
            Priority = snd (categorizeMessage (ToLower w) channelName (MsgText msg))\<rparr>])"
  by (simp add: Let_def split: prod.splits)

text \<open>
  Claim C8. A reply that is also sent to the channel carries the subtype
  \<^verbatim>\<open>thread_broadcast\<close>. The first test of the loop over a page (line 153) passes over
  every message with a subtype, so the exception of the second test (line 157) is never
  reached and the reply is not emitted as an update, where the claim (and the comment of
  line 156) keeps it.
\<close>

theorem broadcast_reply_skipped:
  "processPage quietWorld ''general'' ''C07'' [broadcastReply] [] = []"
  by (simp add: broadcastReply_def)

text \<open>
  The loop of \<^verbatim>\<open>main.go\<close> passes over every reply in a thread, broadcast or not (line 363).
\<close>

lemma broadcast_reply_skipped_main:
  "processPageMain quietWorld ''C07'' ''general'' [broadcastReply] [] = []"
  by (simp add: broadcastReply_def)

subsection \<open>The history loop under rate limits\<close>





lemma history_response_cases:
  "retriedAnswer r \<or> finalAnswer r \<or>
   (\<exists>messages nextCursor. r = HistoryPage messages True nextCursor \<and> nextCursor \<noteq> [])"
  by (cases r) (auto simp: retriedAnswer_def finalAnswer_def)


subsection \<open>Which statements a turn executes\<close>

lemma getChannelIDLoop_events:
  assumes "getChannelIDLoop w channelName n = Some y"
  shows "\<forall>i. UpdateLastFetch i \<notin> set (snd y)"
  by (rule getChannelIDLoop.raw_induct
        [where P = "\<lambda>_ _ _ y. \<forall>i. UpdateLastFetch i \<notin> set (snd y)", OF _ assms])
     (auto split: conversations_response.splits option.splits if_splits prod.splits)

lemma getChannelIDMain_events:
  assumes "getChannelIDMain w channelName = Some (r, ev)"
  shows "UpdateLastFetch i \<notin> set ev"
proof (cases "selectChannel w channelName")
  case QueryError
  with assms show ?thesis by (auto simp: getChannelIDMain_def)
next
  case NoRows
  with assms have "getChannelIDLoop w channelName 0 = Some (r, ev)"
    by (simp add: getChannelIDMain_def)
  from getChannelIDLoop_events [OF this] show ?thesis by simp
next
  case (Row x)
  with assms show ?thesis by (auto simp: getChannelIDMain_def split: prod.splits)
qed

lemma summarizeChannel_events:
  assumes "summarizeChannel w channelID channelName since n cursor updates calls = Some y"
  shows "(\<forall>i. UpdateLastFetch i \<notin> set calls) \<longrightarrow> (\<forall>i. UpdateLastFetch i \<notin> set (snd y))"
  by (rule summarizeChannel.raw_induct
        [where P = "\<lambda>_ _ _ _ _ _ _ calls y.
           (\<forall>i. UpdateLastFetch i \<notin> set calls) \<longrightarrow> (\<forall>i. UpdateLastFetch i \<notin> set (snd y))",
         OF _ assms])
     (auto split: history_response.splits if_splits)

lemma historyLoop_events:
  assumes "historyLoop w channelName channelSlackID since n cursor updates calls = Some y"
  shows "(\<forall>i. UpdateLastFetch i \<notin> set calls) \<longrightarrow> (\<forall>i. UpdateLastFetch i \<notin> set (snd y))"
  by (rule historyLoop.raw_induct
        [where P = "\<lambda>_ _ _ _ _ _ _ calls y.
           (\<forall>i. UpdateLastFetch i \<notin> set calls) \<longrightarrow> (\<forall>i. UpdateLastFetch i \<notin> set (snd y))",
         OF _ assms])
     (auto split: history_response.splits if_splits)

lemma getChannelID_events:
  assumes "getChannelID w channelName = Some (r, ev)"
  shows "UpdateLastFetch i \<notin> set ev"
  using assms
  by (auto simp: getChannelID_def split: query.splits option.splits sum.splits if_splits prod.splits)


subsection \<open>Resolving a channel\<close>

lemma getChannelIDLoop_found:
  assumes "findChannel w channelName n = Some y"
  shows "\<forall>slackID. y = Inr (Some slackID) \<longrightarrow>
     getChannelIDLoop w channelName n
       = Some (Inr (slackID, fst (upsertChannelMain w slackID channelName)),
               [UpsertChannel slackID channelName])"
  apply (rule findChannel.raw_induct
        [where P = "\<lambda>w channelName n y. \<forall>slackID. y = Inr (Some slackID) \<longrightarrow>
           getChannelIDLoop w channelName n
             = Some (Inr (slackID, fst (upsertChannelMain w slackID channelName)),
                     [UpsertChannel slackID channelName])", OF _ assms])
  apply (subst getChannelIDLoop.simps)
  apply (auto split: conversations_response.splits option.splits if_splits prod.splits)
  done

text \<open>
  Claim C7. When the channel is not cached, the loop over the remote directory finds it,
  and the upsert of the channel row then fails, both \<^verbatim>\<open>getChannelID\<close> functions return
  the remote channel id with the row id 0 and no error (\<open>Inr\<close>), after the one upsert.
\<close>

theorem failed_upsert_still_resolves:
  "selectChannel w channelName = NoRows \<longrightarrow>
   findChannel w channelName 0 = Some (Inr (Some slackID)) \<longrightarrow>
   upsertReturning w slackID channelName = None \<longrightarrow>
     (dbPresent w \<longrightarrow>
        getChannelID w channelName
          = Some (Inr (slackID, 0), [UpsertChannel slackID channelName])) \<and>
     getChannelIDMain w channelName
       = Some (Inr (slackID, 0), [UpsertChannel slackID channelName])"
proof (intro impI)
  assume miss: "selectChannel w channelName = NoRows"
    and found: "findChannel w channelName 0 = Some (Inr (Some slackID))"
    and fail: "upsertReturning w slackID channelName = None"
  have "getChannelID w channelName
          = Some (Inr (slackID, 0), [UpsertChannel slackID channelName])" if "dbPresent w"
    using that miss found fail by (simp add: getChannelID_def upsertChannel_def)
  moreover have "getChannelIDMain w channelName
       = Some (Inr (slackID, 0), [UpsertChannel slackID channelName])"
    using getChannelIDLoop_found [OF found] miss fail
    by (simp add: getChannelIDMain_def upsertChannelMain_def)
  ultimately show "(dbPresent w \<longrightarrow>
        getChannelID w channelName
          = Some (Inr (slackID, 0), [UpsertChannel slackID channelName])) \<and>
     getChannelIDMain w channelName
       = Some (Inr (slackID, 0), [UpsertChannel slackID channelName])"
    by blast
qed

lemma findChannel_directoryWorld:
  "findChannel directoryWorld ''support-tier1'' 0 = Some (Inr (Some ''C02''))"
  by (simp add: findChannel.simps directoryWorld_def quietWorld_def)

text \<open>The run of \<open>directoryWorld\<close> satisfies the hypotheses of claim C7.\<close>

theorem failed_upsert_still_resolves_witness:
  "selectChannel directoryWorld ''support-tier1'' = NoRows \<and>
   findChannel directoryWorld ''support-tier1'' 0 = Some (Inr (Some ''C02'')) \<and>
   upsertReturning directoryWorld ''C02'' ''support-tier1'' = None \<and>
   dbPresent directoryWorld \<and>
   getChannelID directoryWorld ''support-tier1''
     = Some (Inr (''C02'', 0), [UpsertChannel ''C02'' ''support-tier1'']) \<and>
   getChannelIDMain directoryWorld ''support-tier1''
     = Some (Inr (''C02'', 0), [UpsertChannel ''C02'' ''support-tier1''])"
proof -
  have miss: "selectChannel directoryWorld ''support-tier1'' = NoRows"
    and fail: "upsertReturning directoryWorld ''C02'' ''support-tier1'' = None"
    and db: "dbPresent directoryWorld"
    by (simp_all add: directoryWorld_def quietWorld_def)
  from failed_upsert_still_resolves [of directoryWorld "''support-tier1''" "''C02''"]
    miss fail db findChannel_directoryWorld
  show ?thesis by simp
qed

subsection \<open>The retry on a rate limit\<close>




text \<open>
  An error text without the word "ratelimited" is not retried, whatever it reports: the
  text of an HTTP status 429 goes to the generic branch of line 142 and comes back to the
  caller after the one call.
\<close>

lemma too_many_requests_returned:
  "\<not> retriedAnswer (GetConversationHistory tooManyRequests 0) \<and>
   historyLoop tooManyRequests ''general'' ''C07'' 1000 0 [] [] []
     = Some (Inl (HistoryFailed ''slack rate limit exceeded, retry after 1s''),
             [HistoryCall 1000 []])"
  by (subst historyLoop.simps) (simp add: tooManyRequests_def retriedAnswer_def)

subsection \<open>The watermark\<close>

text \<open>
  Claim C4. When the fetch of a channel ends with an error, the turn of \<^verbatim>\<open>main\<close> for
  that channel ends with the calls made up to the error, and \<^verbatim>\<open>SummarizeChannel\<close>
  returns the error after them; in both, no statement that writes \<^verbatim>\<open>last_fetched\<close> is
  among the calls.
\<close>

theorem fetch_error_leaves_watermark:
  "(TrimSpace rawName \<noteq> [] \<longrightarrow>
    getChannelIDMain w (TrimSpace rawName) = Some (Inr (slackID, dbID), ev) \<longrightarrow>
    summarizeChannel w slackID (TrimSpace rawName) (fetchStart w fromDate dbID) 0 [] [] []
      = Some (Inl (cursor, e), calls) \<longrightarrow>
      processChannel w fromDate rawName
        = Some \<lparr>status = FetchFailed cursor e, events = ev @ calls, collected = [], saved = 0\<rparr>
      \<and> (\<forall>i. UpdateLastFetch i \<notin> set (ev @ calls))) \<and>
   (getChannelID w channelName = Some (Inr (slackID', dbID'), ev') \<longrightarrow>
    fetchSince w fromDateOverride dbID' = Some since \<longrightarrow>
    historyLoop w channelName slackID' since 0 [] [] [] = Some (Inl err, calls') \<longrightarrow>
      SummarizeChannel w channelName fromDateOverride = Some (Inl err, ev' @ calls')
      \<and> (\<forall>i. UpdateLastFetch i \<notin> set (ev' @ calls')))"
proof (intro conjI impI)
  assume name: "TrimSpace rawName \<noteq> []"
    and res: "getChannelIDMain w (TrimSpace rawName) = Some (Inr (slackID, dbID), ev)"
    and fetch: "summarizeChannel w slackID (TrimSpace rawName) (fetchStart w fromDate dbID) 0 [] [] []
      = Some (Inl (cursor, e), calls)"
  show "processChannel w fromDate rawName
        = Some \<lparr>status = FetchFailed cursor e, events = ev @ calls, collected = [], saved = 0\<rparr>"
    using name res fetch by (simp add: processChannel_def Let_def)
  have "UpdateLastFetch i \<notin> set ev" for i
    by (rule getChannelIDMain_events [OF res])
  moreover have "UpdateLastFetch i \<notin> set calls" for i
    using summarizeChannel_events [OF fetch] by simp
  ultimately show "\<forall>i. UpdateLastFetch i \<notin> set (ev @ calls)" by simp
next
  assume res: "getChannelID w channelName = Some (Inr (slackID', dbID'), ev')"
    and since: "fetchSince w fromDateOverride dbID' = Some since"
    and fetch: "historyLoop w channelName slackID' since 0 [] [] [] = Some (Inl err, calls')"
  from since have "dbPresent w \<or> \<not> IsZero fromDateOverride"
    by (auto simp: fetchSince_def split: if_splits)
  then show "SummarizeChannel w channelName fromDateOverride = Some (Inl err, ev' @ calls')"
    using res since fetch by (auto simp: SummarizeChannel_def)
  have "UpdateLastFetch i \<notin> set ev'" for i
    by (rule getChannelID_events [OF res])
  moreover have "UpdateLastFetch i \<notin> set calls'" for i
    using historyLoop_events [OF fetch] by simp
  ultimately show "\<forall>i. UpdateLastFetch i \<notin> set (ev' @ calls')" by simp
qed

lemma TrimSpace_general: "TrimSpace ''general'' = ''general''"
  by (rule TrimSpace_plain) (simp_all add: spaceWidth_plain spaceWidthRev_plain asciiSpace_def)


lemma broken_resolve:
  "getChannelIDMain brokenWorld name = Some (Inr (''C07'', 7), [])"
  "getChannelID brokenWorld name = Some (Inr (''C07'', 7), [])"
  "fetchStart brokenWorld 0 7 = 1000"
  "fetchSince brokenWorld 0 7 = Some 1000"
  by (simp_all add: getChannelIDMain_def getChannelID_def fetchStart_def fetchSince_def
      getLastFetchTimeMain_def getLastFetchTime_def IsZero_def quietWorld_def brokenWorld_def)

lemma broken_fetch:
  "summarizeChannel brokenWorld ''C07'' ''general'' 1000 0 [] [] []
     = Some (Inl ([], ''connection reset''), [HistoryCall 1000 []])"
  "historyLoop brokenWorld ''general'' ''C07'' 1000 0 [] [] []
     = Some (Inl (HistoryFailed ''connection reset''), [HistoryCall 1000 []])"
  by (simp_all add: summarizeChannel.simps historyLoop.simps brokenWorld_def)

text \<open>The run of \<open>brokenWorld\<close>: the first history request fails.\<close>

theorem fetch_error_leaves_watermark_witness:
  "TrimSpace ''general'' \<noteq> [] \<and>
   getChannelIDMain brokenWorld (TrimSpace ''general'') = Some (Inr (''C07'', 7), []) \<and>
   summarizeChannel brokenWorld ''C07'' (TrimSpace ''general'') (fetchStart brokenWorld 0 7) 0 [] [] []
     = Some (Inl ([], ''connection reset''), [HistoryCall 1000 []]) \<and>
   processChannel brokenWorld 0 ''general''
     = Some \<lparr>status = FetchFailed [] ''connection reset'', events = [HistoryCall 1000 []],
             collected = [], saved = 0\<rparr> \<and>
   getChannelID brokenWorld ''general'' = Some (Inr (''C07'', 7), []) \<and>
   fetchSince brokenWorld 0 7 = Some 1000 \<and>
   historyLoop brokenWorld ''general'' ''C07'' 1000 0 [] [] []
     = Some (Inl (HistoryFailed ''connection reset''), [HistoryCall 1000 []]) \<and>
   SummarizeChannel brokenWorld ''general'' 0
     = Some (Inl (HistoryFailed ''connection reset''), [HistoryCall 1000 []])"
  using fetch_error_leaves_watermark
    [of "''general''" brokenWorld "''C07''" 7 "[]" 0 "[]" "''connection reset''"
        "[HistoryCall 1000 []]" "''general''" "''C07''" 7 "[]" 0 1000
        "HistoryFailed ''connection reset''" "[HistoryCall 1000 []]"]
  by (simp add: TrimSpace_general broken_resolve broken_fetch)






end
